theory Spec2Isabelle
  imports Main
begin

section \<open>Data model (internal/models/message.go)\<close>

text \<open>
  The payload of a message is an \<open>interface{}\<close> in the source; the HTTP layer fills it
  with a decoded JSON value, which is what the datatype below holds. The broker never
  inspects it.
\<close>

datatype json =
    JNull
  | JBool bool
  | JNumber int
  | JString string
  | JArray "json list"
  | JObject "(string \<times> json) list"

text \<open>\<open>MessageType\<close> is a string type; its four constants.\<close>

definition MessageTypeRequest :: string where "MessageTypeRequest = ''request''"
definition MessageTypeResponse :: string where "MessageTypeResponse = ''response''"
definition MessageTypeEvent :: string where "MessageTypeEvent = ''event''"
definition MessageTypeMessage :: string where "MessageTypeMessage = ''message''"

text \<open>\<open>models.Message\<close>. A \<open>time.Time\<close> is an integer instant.\<close>

record Message =
  ID :: string
  FromAgent :: string
  ToAgent :: string
  Type :: string
  Payload :: json
  CorrelationID :: string
  Timestamp :: int
  TTL :: int

text \<open>\<open>models.SendMessageRequest\<close> (fields prefixed, as a record cannot share them).\<close>

record SendMessageRequest =
  req_ToAgent :: string
  req_Type :: string
  req_Payload :: json
  req_CorrelationID :: string
  req_TTL :: int

text \<open>\<open>models.SendMessageResponse\<close>.\<close>

record SendMessageResponse =
  MessageID :: string
  resp_Timestamp :: int
  Channel :: string


section \<open>Errors\<close>

text \<open>
  A Go error is a value. \<open>Errorf p e\<close> is \<open>fmt.Errorf(p + "%w", e)\<close>: the prefix and the
  wrapped error. \<open>Redis_error\<close> is any failure the Redis client reports for a command,
  \<open>Redis_Nil\<close> the reply of \<open>GET\<close> on a missing key, \<open>Json_error\<close> a failure of
  \<open>encoding/json\<close>.
\<close>

datatype error =
    Redis_error string
  | Redis_Nil
  | Json_error string
  | ErrAgentNotFound
  | Errorf string error

fun error_text :: "error \<Rightarrow> string" where
  "error_text (Redis_error s) = s"
| "error_text Redis_Nil = ''redis: nil''"
| "error_text (Json_error s) = s"
| "error_text ErrAgentNotFound = ''agent not found''"
| "error_text (Errorf p e) = p @ error_text e"

text \<open>\<open>errors.Is\<close> follows the chain of wrapped errors.\<close>

fun errors_Is :: "error \<Rightarrow> error \<Rightarrow> bool" where
  "errors_Is (Errorf p e) target = (Errorf p e = target \<or> errors_Is e target)"
| "errors_Is e target = (e = target)"


section \<open>The Redis servers, as the broker sees them\<close>

text \<open>
  Every command the program sends is recorded in \<open>trace\<close>, whether it succeeds or not.
  \<open>outcomes\<close> is the fault oracle: each command consumes its head; \<open>Some s\<close> makes the
  command fail with the Redis error \<open>s\<close> and leave the data untouched, \<open>None\<close> (or an
  exhausted oracle) lets it succeed. \<open>lists\<close> holds every Redis list (a missing key is the
  empty list, as in Redis), \<open>strings\<close> the plain keys, \<open>expiry\<close> the time to live set on a
  key in seconds, \<open>published\<close> the messages handed to the pub/sub server, oldest first,
  and \<open>stdout\<close> the lines the process printed.
\<close>

datatype redis_cmd =
    PUBLISH string string
  | LPUSH string string
  | LTRIM string int int
  | EXPIRE string int
  | LRANGE string int int
  | GET string

record world =
  published :: "(string \<times> string) list"
  lists :: "string \<Rightarrow> string list"
  strings :: "string \<Rightarrow> string option"
  expiry :: "string \<Rightarrow> int option"
  outcomes :: "string option list"
  trace :: "redis_cmd list"
  stdout :: "string list"

definition issue :: "redis_cmd \<Rightarrow> world \<Rightarrow> error option \<times> world" where
  "issue c w =
     (case outcomes w of
        [] \<Rightarrow> (None, w\<lparr>trace := trace w @ [c]\<rparr>)
      | out # rest \<Rightarrow> (map_option Redis_error out, w\<lparr>trace := trace w @ [c], outcomes := rest\<rparr>))"

text \<open>
  The range of \<open>LRANGE\<close> and \<open>LTRIM\<close>: both ends inclusive, a negative index counts from
  the end of the list, an index past the end is cut to it.
\<close>

definition redis_range :: "'a list \<Rightarrow> int \<Rightarrow> int \<Rightarrow> 'a list" where
  "redis_range xs start stop =
     (let n = int (length xs);
          s0 = (if start < 0 then n + start else start);
          e0 = (if stop < 0 then n + stop else stop);
          s = (if s0 < 0 then 0 else s0);
          e = (if e0 \<ge> n then n - 1 else e0)
      in if s > e \<or> s \<ge> n then [] else take (nat (e - s + 1)) (drop (nat s) xs))"

definition Publish :: "string \<Rightarrow> string \<Rightarrow> world \<Rightarrow> error option \<times> world" where
  "Publish channel data w =
     (case issue (PUBLISH channel data) w of
        (Some e, w') \<Rightarrow> (Some e, w')
      | (None, w') \<Rightarrow> (None, w'\<lparr>published := published w' @ [(channel, data)]\<rparr>))"

definition LPush :: "string \<Rightarrow> string \<Rightarrow> world \<Rightarrow> error option \<times> world" where
  "LPush key data w =
     (case issue (LPUSH key data) w of
        (Some e, w') \<Rightarrow> (Some e, w')
      | (None, w') \<Rightarrow> (None, w'\<lparr>lists := (lists w')(key := data # lists w' key)\<rparr>))"

definition LTrim :: "string \<Rightarrow> int \<Rightarrow> int \<Rightarrow> world \<Rightarrow> error option \<times> world" where
  "LTrim key start stop w =
     (case issue (LTRIM key start stop) w of
        (Some e, w') \<Rightarrow> (Some e, w')
      | (None, w') \<Rightarrow>
          (let kept = redis_range (lists w' key) start stop
           in (None, w'\<lparr>lists := (lists w')(key := kept),
                        expiry := (if kept = [] then (expiry w')(key := None) else expiry w')\<rparr>)))"

definition Expire :: "string \<Rightarrow> int \<Rightarrow> world \<Rightarrow> error option \<times> world" where
  "Expire key ttl w =
     (case issue (EXPIRE key ttl) w of
        (Some e, w') \<Rightarrow> (Some e, w')
      | (None, w') \<Rightarrow>
          (None, if lists w' key = [] \<and> strings w' key = None then w'
                 else w'\<lparr>expiry := (expiry w')(key \<mapsto> ttl)\<rparr>))"

definition LRange :: "string \<Rightarrow> int \<Rightarrow> int \<Rightarrow> world \<Rightarrow> (error + string list) \<times> world" where
  "LRange key start stop w =
     (case issue (LRANGE key start stop) w of
        (Some e, w') \<Rightarrow> (Inl e, w')
      | (None, w') \<Rightarrow> (Inr (redis_range (lists w' key) start stop), w'))"

definition Get :: "string \<Rightarrow> world \<Rightarrow> (error + string) \<times> world" where
  "Get key w =
     (case issue (GET key) w of
        (Some e, w') \<Rightarrow> (Inl e, w')
      | (None, w') \<Rightarrow>
          (case strings w' key of None \<Rightarrow> (Inl Redis_Nil, w') | Some v \<Rightarrow> (Inr v, w')))"


section \<open>The message broker (internal/services/messaging/message_broker.go)\<close>

definition directMessageChannelPrefix :: string where
  "directMessageChannelPrefix = ''agent:message:''"

definition broadcastChannel :: string where
  "broadcastChannel = ''agent:broadcast''"

definition messageHistoryPrefix :: string where
  "messageHistoryPrefix = ''agent:history:''"

text \<open>24 hours, in seconds.\<close>

definition messageHistoryTTL :: int where
  "messageHistoryTTL = 24 * 3600"

definition messageHistoryMax :: int where
  "messageHistoryMax = 100"

text \<open>
  \<open>json.Marshal\<close> and \<open>json.Unmarshal\<close> on a \<open>Message\<close> belong to the Go library: the
  broker's functions take them as the parameters \<open>marshal\<close> and \<open>unmarshal\<close>.
\<close>

type_synonym marshaller = "Message \<Rightarrow> error + string"
type_synonym unmarshaller = "string \<Rightarrow> Message option"

definition storeMessageHistory ::
  "marshaller \<Rightarrow> string \<Rightarrow> Message \<Rightarrow> world \<Rightarrow> error option \<times> world" where
  "storeMessageHistory marshal agentID msg w =
     (let key = messageHistoryPrefix @ agentID in
      case marshal msg of
        Inl e \<Rightarrow> (Some (Errorf ''failed to marshal message: '' e), w)
      | Inr data \<Rightarrow>
          (case LPush key data w of
             (Some e, w1) \<Rightarrow> (Some (Errorf ''failed to push message to history: '' e), w1)
           | (None, w1) \<Rightarrow>
               (case LTrim key 0 (messageHistoryMax - 1) w1 of
                  (Some e, w2) \<Rightarrow> (Some (Errorf ''failed to trim message history: '' e), w2)
                | (None, w2) \<Rightarrow>
                    (case Expire key messageHistoryTTL w2 of
                       (Some e, w3) \<Rightarrow>
                         (Some (Errorf ''failed to set message history TTL: '' e), w3)
                     | (None, w3) \<Rightarrow> (None, w3)))))"

text \<open>Lines 64 to 68 of \<open>SendMessage\<close>: the channel a recipient is reached on.\<close>

definition determine_channel :: "string \<Rightarrow> string" where
  "determine_channel toAgent =
     (let channel = directMessageChannelPrefix @ toAgent
      in if toAgent = ''broadcast'' then broadcastChannel else channel)"

text \<open>\<open>fmt.Printf\<close> of a warning line.\<close>

definition Printf :: "string \<Rightarrow> error \<Rightarrow> world \<Rightarrow> world" where
  "Printf prefix e w = w\<lparr>stdout := stdout w @ [prefix @ error_text e @ [CHR 0x0A]]\<rparr>"

text \<open>
  Lines 47 to 56 of \<open>SendMessage\<close>: the message record. \<open>uid\<close> is what
  \<open>uuid.New().String()\<close> returned for this call and \<open>now\<close> what \<open>time.Now()\<close> returned.
\<close>

definition new_message :: "string \<Rightarrow> int \<Rightarrow> string \<Rightarrow> SendMessageRequest \<Rightarrow> Message" where
  "new_message uid now fromAgentID req =
     \<lparr>ID = uid, FromAgent = fromAgentID, ToAgent = req_ToAgent req,
      Type = req_Type req, Payload = req_Payload req,
      CorrelationID = req_CorrelationID req, Timestamp = now, TTL = req_TTL req\<rparr>"

text \<open>\<open>SendMessage\<close>.\<close>

definition SendMessage ::
  "marshaller \<Rightarrow> string \<Rightarrow> int \<Rightarrow> string \<Rightarrow> SendMessageRequest \<Rightarrow> world
     \<Rightarrow> (error + Message) \<times> world" where
  "SendMessage marshal uid now fromAgentID req w =
     (let msg = new_message uid now fromAgentID req
      in case marshal msg of
           Inl e \<Rightarrow> (Inl (Errorf ''failed to marshal message: '' e), w)
         | Inr data \<Rightarrow>
             (let channel = determine_channel (req_ToAgent req)
              in case Publish channel data w of
                   (Some e, w1) \<Rightarrow> (Inl (Errorf ''failed to publish message: '' e), w1)
                 | (None, w1) \<Rightarrow>
                     (let w2 = (case storeMessageHistory marshal fromAgentID msg w1 of
                                  (Some e, w') \<Rightarrow>
                                    Printf ''Warning: failed to store sender message history: '' e w'
                                | (None, w') \<Rightarrow> w');
                          w3 = (if req_ToAgent req \<noteq> ''broadcast''
                                then (case storeMessageHistory marshal (req_ToAgent req) msg w2 of
                                        (Some e, w') \<Rightarrow>
                                          Printf ''Warning: failed to store receiver message history: '' e w'
                                      | (None, w') \<Rightarrow> w')
                                else w2)
                      in (Inr msg, w3))))"

text \<open>
  The loop of \<open>GetMessageHistory\<close>: \<open>for i := len(messages) - 1; i >= 0; i--\<close>. The
  counter of the model is \<open>i + 1\<close>, so the loop ends at 0.
\<close>

fun parse_messages :: "unmarshaller \<Rightarrow> string list \<Rightarrow> nat \<Rightarrow> Message list \<Rightarrow> Message list" where
  "parse_messages unmarshal messages 0 result = result"
| "parse_messages unmarshal messages (Suc i) result =
     (case unmarshal (messages ! i) of
        None \<Rightarrow> parse_messages unmarshal messages i result
      | Some msg \<Rightarrow> parse_messages unmarshal messages i (result @ [msg]))"

definition GetMessageHistory ::
  "unmarshaller \<Rightarrow> string \<Rightarrow> int \<Rightarrow> world \<Rightarrow> (error + Message list) \<times> world" where
  "GetMessageHistory unmarshal agentID limit0 w =
     (let limit = (if limit0 \<le> 0 \<or> limit0 > messageHistoryMax then messageHistoryMax else limit0);
          key = messageHistoryPrefix @ agentID
      in case LRange key 0 (limit - 1) w of
           (Inl e, w') \<Rightarrow> (Inl (Errorf ''failed to get message history: '' e), w')
         | (Inr messages, w') \<Rightarrow>
             if length messages = 0 then (Inr [], w')
             else (Inr (parse_messages unmarshal messages (length messages) []), w'))"


section \<open>The HTTP handler (internal/handlers/message.go)\<close>

text \<open>
  \<open>AgentRegistry.Get\<close>; \<open>unmarshal_agent\<close> is \<open>json.Unmarshal\<close> into an \<open>Agent\<close>, which
  returns the agent or the decoder's own error.
\<close>

definition agentKeyPrefix :: string where
  "agentKeyPrefix = ''agent:''"

definition registry_Get ::
  "(string \<Rightarrow> error + 'agent) \<Rightarrow> string \<Rightarrow> world \<Rightarrow> (error + 'agent) \<times> world" where
  "registry_Get unmarshal_agent agentID w =
     (let agentKey = agentKeyPrefix @ agentID in
      case Get agentKey w of
        (Inl Redis_Nil, w') \<Rightarrow> (Inl ErrAgentNotFound, w')
      | (Inl e, w') \<Rightarrow> (Inl (Errorf ''failed to get agent: '' e), w')
      | (Inr data, w') \<Rightarrow>
          (case unmarshal_agent data of
             Inl e \<Rightarrow> (Inl (Errorf ''failed to unmarshal agent: '' e), w')
           | Inr agent \<Rightarrow> (Inr agent, w')))"

text \<open>
  What the handler writes: \<open>http.Error\<close> with a text and a status, or the status 202
  with the JSON encoding of a \<open>SendMessageResponse\<close>.
\<close>

datatype http_response =
    Http_Error string nat
  | Json_Response nat SendMessageResponse

definition StatusAccepted :: nat where "StatusAccepted = 202"
definition StatusBadRequest :: nat where "StatusBadRequest = 400"
definition StatusNotFound :: nat where "StatusNotFound = 404"
definition StatusInternalServerError :: nat where "StatusInternalServerError = 500"

text \<open>
  \<open>MessageHandler.Send\<close>. \<open>fromAgentID\<close> is the URL parameter \<open>id\<close>, \<open>body\<close> the request
  body and \<open>decode\<close> the JSON decoder for a \<open>SendMessageRequest\<close>.
\<close>

definition Send ::
  "(string \<Rightarrow> error + 'agent) \<Rightarrow> (string \<Rightarrow> SendMessageRequest option) \<Rightarrow> marshaller
     \<Rightarrow> string \<Rightarrow> int \<Rightarrow> string \<Rightarrow> string \<Rightarrow> world \<Rightarrow> http_response \<times> world" where
  "Send unmarshal_agent decode marshal uid now fromAgentID body w =
     (case registry_Get unmarshal_agent fromAgentID w of
        (Inl err, w1) \<Rightarrow>
          if errors_Is err ErrAgentNotFound
          then (Http_Error ''sender agent not found'' StatusNotFound, w1)
          else (Http_Error (error_text err) StatusInternalServerError, w1)
      | (Inr _, w1) \<Rightarrow>
          (case decode body of
             None \<Rightarrow> (Http_Error ''invalid request body'' StatusBadRequest, w1)
           | Some req0 \<Rightarrow>
               if req_ToAgent req0 = ''''
               then (Http_Error ''to_agent is required'' StatusBadRequest, w1)
               else
                 (let req = (if req_Type req0 = '''' then req0\<lparr>req_Type := MessageTypeMessage\<rparr>
                             else req0)
                  in case SendMessage marshal uid now fromAgentID req w1 of
                       (Inl err, w2) \<Rightarrow>
                         (Http_Error (error_text err) StatusInternalServerError, w2)
                     | (Inr msg, w2) \<Rightarrow>
                         (Json_Response StatusAccepted
                            \<lparr>MessageID = ID msg, resp_Timestamp = Timestamp msg,
                             Channel = ''agent:message:'' @ req_ToAgent req\<rparr>, w2))))"


section \<open>Notions used to state the properties\<close>

text \<open>The key a command works on (the channel, for \<open>PUBLISH\<close>).\<close>

fun cmd_key :: "redis_cmd \<Rightarrow> string" where
  "cmd_key (PUBLISH c d) = c"
| "cmd_key (LPUSH k d) = k"
| "cmd_key (LTRIM k a b) = k"
| "cmd_key (EXPIRE k t) = k"
| "cmd_key (LRANGE k a b) = k"
| "cmd_key (GET k) = k"

text \<open>The commands sent between the world \<open>w\<close> and the later world \<open>w'\<close>.\<close>

definition commands_since :: "world \<Rightarrow> world \<Rightarrow> redis_cmd list" where
  "commands_since w w' = drop (length (trace w)) (trace w')"

text \<open>The next command succeeds; no command fails from now on.\<close>

definition next_succeeds :: "world \<Rightarrow> bool" where
  "next_succeeds w = (case outcomes w of [] \<Rightarrow> True | out # rest \<Rightarrow> out = None)"

definition no_faults :: "world \<Rightarrow> bool" where
  "no_faults w = list_all (\<lambda>out. out = None) (outcomes w)"

text \<open>Appending a sequence of messages to one agent's history, first message first.\<close>

fun append_messages :: "marshaller \<Rightarrow> string \<Rightarrow> Message list \<Rightarrow> world \<Rightarrow> world" where
  "append_messages marshal agentID [] w = w"
| "append_messages marshal agentID (m # ms) w =
     append_messages marshal agentID ms (snd (storeMessageHistory marshal agentID m w))"

text \<open>
  A fresh world, and a small codec and message family for the examples: a message is
  written as an opening brace followed by its id, and anything else does not parse.
\<close>

definition empty_world :: world where
  "empty_world =
     \<lparr>published = [], lists = (\<lambda>k. []), strings = (\<lambda>k. None), expiry = (\<lambda>k. None),
      outcomes = [], trace = [], stdout = []\<rparr>"

definition example_message :: "string \<Rightarrow> Message" where
  "example_message s =
     \<lparr>ID = s, FromAgent = ''a1'', ToAgent = ''b1'', Type = ''message'', Payload = JNull,
      CorrelationID = [], Timestamp = 0, TTL = 0\<rparr>"

definition example_marshal :: marshaller where
  "example_marshal m = Inr (CHR ''{'' # ID m)"

definition example_unmarshal :: unmarshaller where
  "example_unmarshal s =
     (case s of [] \<Rightarrow> None
      | c # rest \<Rightarrow> if c = CHR ''{'' then Some (example_message rest) else None)"

definition example_request :: "string \<Rightarrow> string \<Rightarrow> SendMessageRequest" where
  "example_request toAgent kind =
     \<lparr>req_ToAgent = toAgent, req_Type = kind, req_Payload = JNull,
      req_CorrelationID = [], req_TTL = 0\<rparr>"

text \<open>One history write of \<open>SendMessage\<close> with its warning: the world it leaves.\<close>

definition store_or_warn :: "string \<Rightarrow> marshaller \<Rightarrow> string \<Rightarrow> Message \<Rightarrow> world \<Rightarrow> world" where
  "store_or_warn label marshal agentID msg w =
     (case storeMessageHistory marshal agentID msg w of
        (Some e, w') \<Rightarrow> Printf label e w'
      | (None, w') \<Rightarrow> w')"

text \<open>A decoder for the examples: the body is the recipient, the kind is left out.\<close>

definition example_decode :: "string \<Rightarrow> SendMessageRequest option" where
  "example_decode body = (if body = [] then None else Some (example_request body []))"

text \<open>A world in which the agent \<open>a1\<close> is registered.\<close>

definition example_registry :: world where
  "example_registry =
     empty_world\<lparr>strings := (\<lambda>k. if k = ''agent:a1'' then Some ''{a1'' else None)\<rparr>"

text \<open>The first \<open>n\<close> messages of a family with distinct ids.\<close>

definition example_messages :: "nat \<Rightarrow> Message list" where
  "example_messages n = map (\<lambda>i. example_message (replicate i (CHR ''x''))) [0..<n]"

text \<open>The limit \<open>GetMessageHistory\<close> works with (lines 93 to 95).\<close>

definition clamp_limit :: "int \<Rightarrow> nat" where
  "clamp_limit limit = nat (if limit \<le> 0 \<or> limit > 100 then 100 else limit)"

text \<open>Lines 58 to 61 of \<open>Send\<close>: the default kind.\<close>

definition default_type :: "SendMessageRequest \<Rightarrow> SendMessageRequest" where
  "default_type req = (if req_Type req = [] then req\<lparr>req_Type := MessageTypeMessage\<rparr> else req)"


section \<open>Basic facts\<close>

lemma issue_fst:
  "fst (issue c w) = (case outcomes w of [] \<Rightarrow> None | out # rest \<Rightarrow> map_option Redis_error out)"
  by (simp add: issue_def split: list.splits)

lemma issue_snd:
  "snd (issue c w) = w\<lparr>trace := trace w @ [c], outcomes := tl (outcomes w)\<rparr>"
  by (simp add: issue_def split: list.splits)

lemma issue_eq:
  "issue c w = (fst (issue c w), w\<lparr>trace := trace w @ [c], outcomes := tl (outcomes w)\<rparr>)"
  by (metis issue_snd prod.collapse)

lemma issue_succeeds: "next_succeeds w \<Longrightarrow> fst (issue c w) = None"
  by (auto simp: issue_fst next_succeeds_def split: list.splits)

lemma issue_fails: "outcomes w = Some s # rest \<Longrightarrow> fst (issue c w) = Some (Redis_error s)"
  by (simp add: issue_fst)

lemma no_faults_next: "no_faults w \<Longrightarrow> next_succeeds w"
  by (auto simp: no_faults_def next_succeeds_def split: list.splits)

lemma no_faults_tl: "no_faults w \<Longrightarrow> outcomes w' = tl (outcomes w) \<Longrightarrow> no_faults w'"
  by (cases "outcomes w") (auto simp: no_faults_def)

lemma redis_range_prefix:
  "0 \<le> stop \<Longrightarrow> redis_range xs 0 stop = take (nat stop + 1) xs"
  by (cases "xs = []") (auto simp: redis_range_def Let_def nat_add_distrib)

subsection \<open>The commands, one by one\<close>

lemma Publish_fst: "fst (Publish c d w) = fst (issue (PUBLISH c d) w)"
  by (cases "issue (PUBLISH c d) w") (simp add: Publish_def split: option.splits)

lemma Publish_snd:
  "snd (Publish c d w) =
     w\<lparr>trace := trace w @ [PUBLISH c d], outcomes := tl (outcomes w),
       published := (if fst (issue (PUBLISH c d) w) = None then published w @ [(c, d)]
                     else published w)\<rparr>"
  using issue_snd [of "PUBLISH c d" w]
  by (cases "issue (PUBLISH c d) w") (auto simp add: Publish_def split: option.splits)

lemma LPush_fst: "fst (LPush k d w) = fst (issue (LPUSH k d) w)"
  by (cases "issue (LPUSH k d) w") (simp add: LPush_def split: option.splits)

lemma LPush_snd:
  "snd (LPush k d w) =
     w\<lparr>trace := trace w @ [LPUSH k d], outcomes := tl (outcomes w),
       lists := (if fst (issue (LPUSH k d) w) = None then (lists w)(k := d # lists w k)
                 else lists w)\<rparr>"
  using issue_snd [of "LPUSH k d" w]
  by (cases "issue (LPUSH k d) w") (auto simp add: LPush_def split: option.splits)

lemma LTrim_fst: "fst (LTrim k a b w) = fst (issue (LTRIM k a b) w)"
  by (cases "issue (LTRIM k a b) w") (simp add: LTrim_def Let_def split: option.splits)

lemma LTrim_snd_fail:
  "fst (issue (LTRIM k a b) w) \<noteq> None \<Longrightarrow>
   snd (LTrim k a b w) = w\<lparr>trace := trace w @ [LTRIM k a b], outcomes := tl (outcomes w)\<rparr>"
  using issue_snd [of "LTRIM k a b" w]
  by (cases "issue (LTRIM k a b) w") (auto simp add: LTrim_def split: option.splits)

lemma LTrim_snd_ok:
  "fst (issue (LTRIM k a b) w) = None \<Longrightarrow>
   snd (LTrim k a b w) =
     w\<lparr>trace := trace w @ [LTRIM k a b], outcomes := tl (outcomes w),
       lists := (lists w)(k := redis_range (lists w k) a b),
       expiry := (if redis_range (lists w k) a b = [] then (expiry w)(k := None) else expiry w)\<rparr>"
  using issue_snd [of "LTRIM k a b" w]
  by (cases "issue (LTRIM k a b) w") (auto simp add: LTrim_def Let_def split: option.splits)

lemma Expire_fst: "fst (Expire k t w) = fst (issue (EXPIRE k t) w)"
  by (cases "issue (EXPIRE k t) w") (simp add: Expire_def split: option.splits)

lemma Expire_snd:
  "\<exists>x. snd (Expire k t w) =
     w\<lparr>trace := trace w @ [EXPIRE k t], outcomes := tl (outcomes w), expiry := x\<rparr>"
  using issue_snd [of "EXPIRE k t" w]
  by (cases "issue (EXPIRE k t) w") (auto simp add: Expire_def split: option.splits intro: exI[of _ "expiry w"])

lemma LRange_fst:
  "fst (LRange k a b w) =
     (case fst (issue (LRANGE k a b) w) of Some e \<Rightarrow> Inl e
      | None \<Rightarrow> Inr (redis_range (lists w k) a b))"
  using issue_snd [of "LRANGE k a b" w]
  by (cases "issue (LRANGE k a b) w") (auto simp add: LRange_def split: option.splits)

lemma LRange_snd:
  "snd (LRange k a b w) = w\<lparr>trace := trace w @ [LRANGE k a b], outcomes := tl (outcomes w)\<rparr>"
  using issue_snd [of "LRANGE k a b" w]
  by (cases "issue (LRANGE k a b) w") (auto simp add: LRange_def split: option.splits)


subsection \<open>Storing one message\<close>

lemma store_unfold:
  "storeMessageHistory marshal agentID msg w =
     (let key = messageHistoryPrefix @ agentID in
      case marshal msg of
        Inl e \<Rightarrow> (Some (Errorf ''failed to marshal message: '' e), w)
      | Inr data \<Rightarrow>
          (let w1 = snd (LPush key data w) in
           case fst (LPush key data w) of
             Some e \<Rightarrow> (Some (Errorf ''failed to push message to history: '' e), w1)
           | None \<Rightarrow>
               (let w2 = snd (LTrim key 0 (messageHistoryMax - 1) w1) in
                case fst (LTrim key 0 (messageHistoryMax - 1) w1) of
                  Some e \<Rightarrow> (Some (Errorf ''failed to trim message history: '' e), w2)
                | None \<Rightarrow>
                    (let w3 = snd (Expire key messageHistoryTTL w2) in
                     case fst (Expire key messageHistoryTTL w2) of
                       Some e \<Rightarrow> (Some (Errorf ''failed to set message history TTL: '' e), w3)
                     | None \<Rightarrow> (None, w3)))))"
  by (simp add: storeMessageHistory_def Let_def split: sum.splits prod.splits option.splits)


lemma Publish_proj:
  "lists (snd (Publish c d w)) = lists w"
  "expiry (snd (Publish c d w)) = expiry w"
  "strings (snd (Publish c d w)) = strings w"
  "stdout (snd (Publish c d w)) = stdout w"
  "trace (snd (Publish c d w)) = trace w @ [PUBLISH c d]"
  "outcomes (snd (Publish c d w)) = tl (outcomes w)"
  "published (snd (Publish c d w)) =
     (if fst (issue (PUBLISH c d) w) = None then published w @ [(c, d)] else published w)"
  by (simp_all add: Publish_snd)

lemma LPush_proj:
  "published (snd (LPush k d w)) = published w"
  "expiry (snd (LPush k d w)) = expiry w"
  "strings (snd (LPush k d w)) = strings w"
  "stdout (snd (LPush k d w)) = stdout w"
  "trace (snd (LPush k d w)) = trace w @ [LPUSH k d]"
  "outcomes (snd (LPush k d w)) = tl (outcomes w)"
  "lists (snd (LPush k d w)) =
     (if fst (issue (LPUSH k d) w) = None then (lists w)(k := d # lists w k) else lists w)"
  by (simp_all add: LPush_snd)

lemma LTrim_proj:
  "published (snd (LTrim k a b w)) = published w"
  "strings (snd (LTrim k a b w)) = strings w"
  "stdout (snd (LTrim k a b w)) = stdout w"
  "trace (snd (LTrim k a b w)) = trace w @ [LTRIM k a b]"
  "outcomes (snd (LTrim k a b w)) = tl (outcomes w)"
  "lists (snd (LTrim k a b w)) =
     (if fst (issue (LTRIM k a b) w) = None then (lists w)(k := redis_range (lists w k) a b)
      else lists w)"
proof -
  show "published (snd (LTrim k a b w)) = published w"
    "strings (snd (LTrim k a b w)) = strings w"
    "stdout (snd (LTrim k a b w)) = stdout w"
    "trace (snd (LTrim k a b w)) = trace w @ [LTRIM k a b]"
    "outcomes (snd (LTrim k a b w)) = tl (outcomes w)"
    "lists (snd (LTrim k a b w)) =
     (if fst (issue (LTRIM k a b) w) = None then (lists w)(k := redis_range (lists w k) a b)
      else lists w)"
    by (cases "fst (issue (LTRIM k a b) w) = None", simp_all add: LTrim_snd_ok LTrim_snd_fail)+
qed

lemma Expire_proj:
  "published (snd (Expire k t w)) = published w"
  "lists (snd (Expire k t w)) = lists w"
  "strings (snd (Expire k t w)) = strings w"
  "stdout (snd (Expire k t w)) = stdout w"
  "trace (snd (Expire k t w)) = trace w @ [EXPIRE k t]"
  "outcomes (snd (Expire k t w)) = tl (outcomes w)"
proof -
  obtain x where "snd (Expire k t w) =
     w\<lparr>trace := trace w @ [EXPIRE k t], outcomes := tl (outcomes w), expiry := x\<rparr>"
    using Expire_snd by blast
  then show "published (snd (Expire k t w)) = published w"
  "lists (snd (Expire k t w)) = lists w"
  "strings (snd (Expire k t w)) = strings w"
  "stdout (snd (Expire k t w)) = stdout w"
  "trace (snd (Expire k t w)) = trace w @ [EXPIRE k t]"
  "outcomes (snd (Expire k t w)) = tl (outcomes w)"
    by simp_all
qed

lemma LRange_proj:
  "published (snd (LRange k a b w)) = published w"
  "lists (snd (LRange k a b w)) = lists w"
  "strings (snd (LRange k a b w)) = strings w"
  "stdout (snd (LRange k a b w)) = stdout w"
  "expiry (snd (LRange k a b w)) = expiry w"
  "trace (snd (LRange k a b w)) = trace w @ [LRANGE k a b]"
  "outcomes (snd (LRange k a b w)) = tl (outcomes w)"
  by (simp_all add: LRange_snd)

lemmas cmd_proj = Publish_proj LPush_proj LTrim_proj Expire_proj LRange_proj

lemma store_published: "published (snd (storeMessageHistory marshal a m w)) = published w"
  by (simp add: store_unfold Let_def cmd_proj split: sum.splits option.splits)

lemma store_stdout: "stdout (snd (storeMessageHistory marshal a m w)) = stdout w"
  by (simp add: store_unfold Let_def cmd_proj split: sum.splits option.splits)

lemma store_lists_other:
  "k \<noteq> messageHistoryPrefix @ a \<Longrightarrow> lists (snd (storeMessageHistory marshal a m w)) k = lists w k"
  by (simp add: store_unfold Let_def cmd_proj split: sum.splits option.splits)

lemma store_trace:
  "\<exists>cs. trace (snd (storeMessageHistory marshal a m w)) = trace w @ cs
        \<and> (\<forall>c \<in> set cs. cmd_key c = messageHistoryPrefix @ a)
        \<and> (\<forall>data. marshal m = Inr data \<longrightarrow> cs \<noteq> [] \<and> hd cs = LPUSH (messageHistoryPrefix @ a) data)"
  by (simp add: store_unfold Let_def cmd_proj split: sum.splits option.splits)


lemma issue_no_faults: "no_faults w \<Longrightarrow> fst (issue c w) = None"
  by (simp add: issue_succeeds no_faults_next)

lemma store_ok:
  assumes m: "marshal m = Inr data" and nf: "no_faults w"
  shows "fst (storeMessageHistory marshal a m w) = None"
    and "lists (snd (storeMessageHistory marshal a m w)) =
           (lists w)(messageHistoryPrefix @ a := take 100 (data # lists w (messageHistoryPrefix @ a)))"
    and "no_faults (snd (storeMessageHistory marshal a m w))"
proof -
  define k where "k = messageHistoryPrefix @ a"
  define w1 where "w1 = snd (LPush k data w)"
  define w2 where "w2 = snd (LTrim k 0 (messageHistoryMax - 1) w1)"
  define w3 where "w3 = snd (Expire k messageHistoryTTL w2)"
  have nf1: "no_faults w1"
    using nf no_faults_tl LPush_proj(6) unfolding w1_def by blast
  have nf2: "no_faults w2"
    using nf1 no_faults_tl LTrim_proj(5) unfolding w2_def by blast
  have nf3: "no_faults w3"
    using nf2 no_faults_tl Expire_proj(6) unfolding w3_def by blast
  have r1: "fst (LPush k data w) = None"
    by (simp add: LPush_fst issue_no_faults nf)
  have r2: "fst (LTrim k 0 (messageHistoryMax - 1) w1) = None"
    by (simp add: LTrim_fst issue_no_faults nf1)
  have r3: "fst (Expire k messageHistoryTTL w2) = None"
    by (simp add: Expire_fst issue_no_faults nf2)
  have eq: "storeMessageHistory marshal a m w = (None, w3)"
    using m r1 r2 r3
    by (simp add: store_unfold Let_def k_def [symmetric] w1_def [symmetric]
        w2_def [symmetric] w3_def [symmetric])
  have l1: "lists w1 = (lists w)(k := data # lists w k)"
    by (simp add: w1_def LPush_proj issue_no_faults nf)
  have l2: "lists w2 = (lists w1)(k := redis_range (lists w1 k) 0 (messageHistoryMax - 1))"
    by (simp add: w2_def LTrim_proj issue_no_faults nf1)
  have l3: "lists w3 = lists w2"
    by (simp add: w3_def Expire_proj)
  show "fst (storeMessageHistory marshal a m w) = None" by (simp add: eq)
  show "no_faults (snd (storeMessageHistory marshal a m w))" by (simp add: eq nf3)
  show "lists (snd (storeMessageHistory marshal a m w)) =
           (lists w)(messageHistoryPrefix @ a := take 100 (data # lists w (messageHistoryPrefix @ a)))"
    by (simp add: eq l3 l2 l1 redis_range_prefix messageHistoryMax_def k_def)
qed

lemma redis_range_length: "0 \<le> stop \<Longrightarrow> length (redis_range xs 0 stop) \<le> nat stop + 1"
  by (simp add: redis_range_prefix)

lemma store_bound:
  "fst (storeMessageHistory marshal a m w) = None \<Longrightarrow>
   length (lists (snd (storeMessageHistory marshal a m w)) (messageHistoryPrefix @ a)) \<le> 100"
  by (simp add: store_unfold Let_def cmd_proj LPush_fst LTrim_fst Expire_fst
      redis_range_prefix messageHistoryMax_def split: sum.splits option.splits if_splits)

subsection \<open>Reading a history\<close>

lemma parse_messages_acc:
  "i \<le> length xs \<Longrightarrow>
   parse_messages um xs i acc = acc @ List.map_filter um (rev (take i xs))"
proof (induction i arbitrary: acc)
  case 0
  then show ?case by (simp add: List.map_filter_simps)
next
  case (Suc i)
  then have "take (Suc i) xs = take i xs @ [xs ! i]"
    by (simp add: take_Suc_conv_app_nth)
  with Suc show ?case
    by (simp add: List.map_filter_simps split: option.splits)
qed

lemma parse_messages_all:
  "parse_messages um xs (length xs) [] = List.map_filter um (rev xs)"
  by (simp add: parse_messages_acc)


lemma GetMessageHistory_ok:
  assumes "next_succeeds w"
  shows "fst (GetMessageHistory um a limit w) =
     Inr (List.map_filter um (rev (take (nat (if limit \<le> 0 \<or> limit > 100 then 100 else limit))
          (lists w (messageHistoryPrefix @ a)))))"
proof -
  define lim where "lim = (if limit \<le> 0 \<or> limit > messageHistoryMax then messageHistoryMax else limit)"
  define k where "k = messageHistoryPrefix @ a"
  define msgs where "msgs = take (nat lim) (lists w k)"
  have lim: "1 \<le> lim" "lim \<le> 100"
    by (auto simp: lim_def messageHistoryMax_def)
  have range: "fst (LRange k 0 (lim - 1) w) = Inr msgs"
    using assms lim
    by (simp add: LRange_fst issue_succeeds redis_range_prefix msgs_def nat_diff_distrib)
  have "fst (GetMessageHistory um a limit w) =
          (if length msgs = 0 then Inr [] else Inr (parse_messages um msgs (length msgs) []))"
    using range
    by (cases "LRange k 0 (lim - 1) w")
       (simp add: GetMessageHistory_def Let_def lim_def [symmetric] k_def [symmetric])
  also have "\<dots> = Inr (List.map_filter um (rev msgs))"
    by (simp add: parse_messages_all List.map_filter_simps)
  finally show ?thesis
    by (simp add: msgs_def lim_def k_def messageHistoryMax_def)
qed

lemma GetMessageHistory_fail:
  assumes "outcomes w = Some s # rest"
  shows "fst (GetMessageHistory um a limit w) =
     Inl (Errorf ''failed to get message history: '' (Redis_error s))"
  using assms
  by (cases "LRange (messageHistoryPrefix @ a)
         0 ((if limit \<le> 0 \<or> limit > messageHistoryMax then messageHistoryMax else limit) - 1) w")
     (auto simp add: GetMessageHistory_def Let_def LRange_def issue_def)

subsection \<open>Appending a sequence of messages\<close>


lemma store_no_faults:
  "marshal m = Inr data \<Longrightarrow> no_faults w \<Longrightarrow> no_faults (snd (storeMessageHistory marshal a m w))"
  by (rule store_ok(3))

lemma store_lists:
  "marshal m = Inr data \<Longrightarrow> no_faults w \<Longrightarrow>
   lists (snd (storeMessageHistory marshal a m w)) (messageHistoryPrefix @ a) =
     take 100 (data # lists w (messageHistoryPrefix @ a))"
  by (simp add: store_ok(2))

lemma append_messages_no_faults:
  "\<forall>m \<in> set ms. marshal m = Inr (enc m) \<Longrightarrow> no_faults w \<Longrightarrow>
   no_faults (append_messages marshal a ms w)"
proof (induction ms arbitrary: w)
  case Nil
  then show ?case by simp
next
  case (Cons m ms)
  have "no_faults (snd (storeMessageHistory marshal a m w))"
    using Cons.prems store_no_faults [of marshal m "enc m" w a] by simp
  then show ?case using Cons by simp
qed


lemma take_append_take: "take n (xs @ take n ys) = take n (xs @ ys)"
  by (simp add: min_def)

lemma append_messages_lists:
  "\<forall>m \<in> set ms. marshal m = Inr (enc m) \<Longrightarrow> no_faults w \<Longrightarrow>
   lists (append_messages marshal a ms w) (messageHistoryPrefix @ a) =
     (if ms = [] then lists w (messageHistoryPrefix @ a)
      else take 100 (rev (map enc ms) @ lists w (messageHistoryPrefix @ a)))"
proof (induction ms arbitrary: w)
  case Nil
  then show ?case by simp
next
  case (Cons m ms)
  define w1 where "w1 = snd (storeMessageHistory marshal a m w)"
  define N where "N = (100::nat)"
  define k where "k = messageHistoryPrefix @ a"
  have m: "marshal m = Inr (enc m)" using Cons.prems by simp
  have nf1: "no_faults w1"
    unfolding w1_def using m Cons.prems(2) by (rule store_no_faults)
  have l1: "lists w1 k = take N (enc m # lists w k)"
    unfolding w1_def N_def k_def using m Cons.prems(2) by (rule store_lists)
  have rest: "\<forall>m \<in> set ms. marshal m = Inr (enc m)" using Cons.prems by simp
  have "lists (append_messages marshal a (m # ms) w) k = lists (append_messages marshal a ms w1) k"
    by (simp add: w1_def)
  also have "\<dots> = (if ms = [] then lists w1 k else take N (rev (map enc ms) @ lists w1 k))"
    unfolding N_def k_def using Cons.IH [OF rest nf1] .
  also have "\<dots> = take N (rev (map enc ms) @ take N (enc m # lists w k))"
    by (simp add: l1)
  also have "\<dots> = take N (rev (map enc ms) @ (enc m # lists w k))"
    by (rule take_append_take)
  also have "\<dots> = take N (rev (map enc (m # ms)) @ lists w k)"
    by simp
  finally show ?case
    by (simp only: N_def k_def list.distinct if_False)
qed

subsection \<open>Sending\<close>

lemma Printf_proj:
  "published (Printf p e w) = published w"
  "lists (Printf p e w) = lists w"
  "strings (Printf p e w) = strings w"
  "expiry (Printf p e w) = expiry w"
  "trace (Printf p e w) = trace w"
  "outcomes (Printf p e w) = outcomes w"
  by (simp_all add: Printf_def)

lemma store_or_warn_proj:
  "published (store_or_warn l marshal a m w) = published (snd (storeMessageHistory marshal a m w))"
  "lists (store_or_warn l marshal a m w) = lists (snd (storeMessageHistory marshal a m w))"
  "trace (store_or_warn l marshal a m w) = trace (snd (storeMessageHistory marshal a m w))"
  "outcomes (store_or_warn l marshal a m w) = outcomes (snd (storeMessageHistory marshal a m w))"
  by (cases "storeMessageHistory marshal a m w";
      simp add: store_or_warn_def Printf_proj split: option.splits)+

lemma SendMessage_marshal_fails:
  "marshal (new_message uid now fromAgentID req) = Inl e \<Longrightarrow>
   SendMessage marshal uid now fromAgentID req w =
     (Inl (Errorf ''failed to marshal message: '' e), w)"
  by (simp add: SendMessage_def)

lemma SendMessage_publish_fails:
  assumes "marshal (new_message uid now fromAgentID req) = Inr data"
    and "fst (Publish (determine_channel (req_ToAgent req)) data w) = Some e"
  shows "SendMessage marshal uid now fromAgentID req w =
     (Inl (Errorf ''failed to publish message: '' e),
      snd (Publish (determine_channel (req_ToAgent req)) data w))"
  using assms
  by (cases "Publish (determine_channel (req_ToAgent req)) data w")
     (simp add: SendMessage_def Let_def)

lemma SendMessage_published:
  assumes "marshal (new_message uid now fromAgentID req) = Inr data"
    and "fst (Publish (determine_channel (req_ToAgent req)) data w) = None"
  shows "SendMessage marshal uid now fromAgentID req w =
     (Inr (new_message uid now fromAgentID req),
      (let msg = new_message uid now fromAgentID req;
           w1 = snd (Publish (determine_channel (req_ToAgent req)) data w);
           w2 = store_or_warn ''Warning: failed to store sender message history: ''
                  marshal fromAgentID msg w1
       in if req_ToAgent req \<noteq> ''broadcast''
          then store_or_warn ''Warning: failed to store receiver message history: ''
                 marshal (req_ToAgent req) msg w2
          else w2))"
  using assms
  by (cases "Publish (determine_channel (req_ToAgent req)) data w")
     (simp add: SendMessage_def Let_def store_or_warn_def)


lemma commands_since_append:
  "trace w' = trace w @ cs \<Longrightarrow> commands_since w w' = cs"
  by (simp add: commands_since_def)

subsection \<open>Reading after appending, the handler\<close>

lemma clamp_limit_bounds: "1 \<le> clamp_limit limit" "clamp_limit limit \<le> 100"
  by (auto simp: clamp_limit_def)

lemma map_filter_roundtrip:
  "\<forall>m \<in> set ys. um (enc m) = Some m \<Longrightarrow> List.map_filter um (map enc ys) = ys"
  by (induction ys) (simp_all add: List.map_filter_simps)

lemma map_filter_as_filter:
  "map Some (List.map_filter f xs) = filter (\<lambda>r. r \<noteq> None) (map f xs)"
  by (induction xs) (auto simp add: List.map_filter_simps split: option.splits)

lemma map_filter_all_None:
  "\<forall>x \<in> set xs. f x = None \<Longrightarrow> List.map_filter f xs = []"
  by (induction xs) (simp_all add: List.map_filter_simps)

lemma history_after_appends:
  assumes nf: "no_faults w"
    and codec: "\<forall>m \<in> set ms. marshal m = Inr (enc m) \<and> um (enc m) = Some m"
    and enough: "lists w (messageHistoryPrefix @ a) = [] \<or> clamp_limit limit \<le> length ms"
  shows "fst (GetMessageHistory um a limit (append_messages marshal a ms w)) =
           Inr (drop (length ms - clamp_limit limit) ms)"
proof -
  define n where "n = clamp_limit limit"
  define k where "k = messageHistoryPrefix @ a"
  define w' where "w' = append_messages marshal a ms w"
  have n: "1 \<le> n" "n \<le> 100"
    using clamp_limit_bounds by (simp_all add: n_def)
  have mar: "\<forall>m \<in> set ms. marshal m = Inr (enc m)"
    using codec by simp
  have "no_faults w'"
    unfolding w'_def using mar nf by (rule append_messages_no_faults)
  then have "next_succeeds w'"
    by (rule no_faults_next)
  then have res: "fst (GetMessageHistory um a limit w') =
      Inr (List.map_filter um (rev (take n (lists w' k))))"
    by (simp add: GetMessageHistory_ok n_def clamp_limit_def k_def)
  have stored: "lists w' k =
      (if ms = [] then lists w k else take 100 (rev (map enc ms) @ lists w k))"
    unfolding w'_def k_def using mar nf by (rule append_messages_lists)
  have window: "take n (lists w' k) = take n (rev (map enc ms))"
  proof (cases "ms = []")
    case True
    then show ?thesis using stored enough n by (simp add: k_def n_def)
  next
    case False
    then have "take n (lists w' k) = take n (take 100 (rev (map enc ms) @ lists w k))"
      using stored by simp
    also have "\<dots> = take n (rev (map enc ms) @ lists w k)"
      using n by (simp add: min_def)
    also have "\<dots> = take n (rev (map enc ms))"
      using enough by (auto simp add: k_def n_def)
    finally show ?thesis .
  qed
  have "rev (take n (rev (map enc ms))) = map enc (drop (length ms - n) ms)"
    by (simp add: take_rev drop_map)
  moreover have "List.map_filter um (map enc (drop (length ms - n) ms)) = drop (length ms - n) ms"
    using codec by (intro map_filter_roundtrip) (auto dest: in_set_dropD)
  ultimately show ?thesis
    using res window by (simp add: w'_def n_def)
qed

lemma codec_choice:
  assumes "\<forall>m \<in> set ms. \<exists>d. marshal m = Inr d \<and> um d = Some m"
  obtains enc where "\<forall>m \<in> set ms. marshal m = Inr (enc m) \<and> um (enc m) = Some m"
  using assms by (auto dest!: bchoice)

lemma example_codec:
  "\<forall>m \<in> set (example_messages n). \<exists>d. example_marshal m = Inr d \<and> example_unmarshal d = Some m"
  by (auto simp add: example_messages_def example_marshal_def example_unmarshal_def
      example_message_def)

lemma no_faults_empty_world: "no_faults empty_world"
  by (simp add: no_faults_def empty_world_def)

lemma store_trace_rest:
  assumes "marshal m = Inr data"
  shows "\<exists>cs. trace (snd (storeMessageHistory marshal a m w)) =
                trace w @ LPUSH (messageHistoryPrefix @ a) data # cs
            \<and> (\<forall>c \<in> set cs. cmd_key c = messageHistoryPrefix @ a)
            \<and> set cs \<subseteq> {LTRIM (messageHistoryPrefix @ a) 0 99,
                         EXPIRE (messageHistoryPrefix @ a) 86400}"
  using assms
  by (simp add: store_unfold Let_def cmd_proj messageHistoryMax_def messageHistoryTTL_def
      split: option.splits)

lemma send_to_broadcast:
  assumes m: "marshal (new_message uid now fromAgentID req) = Inr data"
    and p: "fst (Publish (determine_channel (req_ToAgent req)) data w) = None"
    and b: "req_ToAgent req = ''broadcast''"
  shows "published (snd (SendMessage marshal uid now fromAgentID req w)) =
           published w @ [(broadcastChannel, data)]"
    and "\<exists>cs. commands_since w (snd (SendMessage marshal uid now fromAgentID req w)) =
              PUBLISH broadcastChannel data # LPUSH (messageHistoryPrefix @ fromAgentID) data # cs
            \<and> (\<forall>c \<in> set cs. cmd_key c = messageHistoryPrefix @ fromAgentID)
            \<and> set cs \<subseteq> {LTRIM (messageHistoryPrefix @ fromAgentID) 0 99,
                         EXPIRE (messageHistoryPrefix @ fromAgentID) 86400}"
    and "\<forall>k. k \<noteq> messageHistoryPrefix @ fromAgentID \<longrightarrow>
           lists (snd (SendMessage marshal uid now fromAgentID req w)) k = lists w k"
    and "no_faults w \<longrightarrow> lists (snd (SendMessage marshal uid now fromAgentID req w))
             (messageHistoryPrefix @ fromAgentID) =
           take 100 (data # lists w (messageHistoryPrefix @ fromAgentID))"
proof -
  define msg where "msg = new_message uid now fromAgentID req"
  define w1 where "w1 = snd (Publish broadcastChannel data w)"
  define w2 where "w2 = snd (storeMessageHistory marshal fromAgentID msg w1)"
  define w' where "w' = snd (SendMessage marshal uid now fromAgentID req w)"
  have ch: "determine_channel (req_ToAgent req) = broadcastChannel"
    using b by (simp add: determine_channel_def)
  have i: "fst (issue (PUBLISH broadcastChannel data) w) = None"
    using p by (simp add: ch Publish_fst)
  have m': "marshal msg = Inr data" using m by (simp add: msg_def)
  have snd_eq: "w' = store_or_warn ''Warning: failed to store sender message history: ''
                  marshal fromAgentID msg w1"
    using SendMessage_published [where marshal = marshal, OF m p] b
    by (simp add: w'_def Let_def determine_channel_def w1_def msg_def)
  have pub: "published w' = published w1" "lists w' = lists w2" "trace w' = trace w2"
    by (simp_all add: snd_eq store_or_warn_proj w2_def store_published)
  show "published w' = published w @ [(broadcastChannel, data)]"
    by (simp add: pub w1_def Publish_proj i)
  obtain cs where cs: "trace w2 = trace w1 @ LPUSH (messageHistoryPrefix @ fromAgentID) data # cs"
    "\<forall>c \<in> set cs. cmd_key c = messageHistoryPrefix @ fromAgentID"
    "set cs \<subseteq> {LTRIM (messageHistoryPrefix @ fromAgentID) 0 99,
                 EXPIRE (messageHistoryPrefix @ fromAgentID) 86400}"
    unfolding w2_def using store_trace_rest [where marshal = marshal, OF m'] by blast
  have "trace w' = trace w @ (PUBLISH broadcastChannel data #
          LPUSH (messageHistoryPrefix @ fromAgentID) data # cs)"
    by (simp add: pub cs(1) w1_def Publish_proj)
  then have "commands_since w w' = PUBLISH broadcastChannel data #
          LPUSH (messageHistoryPrefix @ fromAgentID) data # cs"
    by (rule commands_since_append)
  then show "\<exists>cs. commands_since w w' =
              PUBLISH broadcastChannel data # LPUSH (messageHistoryPrefix @ fromAgentID) data # cs
            \<and> (\<forall>c \<in> set cs. cmd_key c = messageHistoryPrefix @ fromAgentID)
            \<and> set cs \<subseteq> {LTRIM (messageHistoryPrefix @ fromAgentID) 0 99,
                         EXPIRE (messageHistoryPrefix @ fromAgentID) 86400}"
    using cs(2,3) by blast
  show "\<forall>k. k \<noteq> messageHistoryPrefix @ fromAgentID \<longrightarrow> lists w' k = lists w k"
    by (simp add: pub w2_def store_lists_other w1_def Publish_proj)
  show "no_faults w \<longrightarrow> lists w' (messageHistoryPrefix @ fromAgentID) =
           take 100 (data # lists w (messageHistoryPrefix @ fromAgentID))"
  proof
    assume "no_faults w"
    then have "no_faults w1"
      using no_faults_tl Publish_proj(6) unfolding w1_def by blast
    then show "lists w' (messageHistoryPrefix @ fromAgentID) =
           take 100 (data # lists w (messageHistoryPrefix @ fromAgentID))"
      using store_lists [where marshal = marshal, OF m', of w1 fromAgentID]
      by (simp add: pub w2_def w1_def Publish_proj)
  qed
qed

lemma take_Cons_take: "take n (x # take n ys) = take n (x # ys)"
  by (cases n) (simp_all add: min_def)

lemma no_faults_cong: "outcomes x = outcomes y \<Longrightarrow> no_faults x = no_faults y"
  by (simp add: no_faults_def)

lemma send_to_agent:
  assumes m: "marshal (new_message uid now fromAgentID req) = Inr data"
    and p: "fst (Publish (determine_channel (req_ToAgent req)) data w) = None"
    and b: "req_ToAgent req \<noteq> ''broadcast''"
  shows "published (snd (SendMessage marshal uid now fromAgentID req w)) =
           published w @ [(directMessageChannelPrefix @ req_ToAgent req, data)]"
    and "\<exists>cs ds. commands_since w (snd (SendMessage marshal uid now fromAgentID req w)) =
              PUBLISH (directMessageChannelPrefix @ req_ToAgent req) data
              # LPUSH (messageHistoryPrefix @ fromAgentID) data # cs
              @ LPUSH (messageHistoryPrefix @ req_ToAgent req) data # ds
            \<and> (\<forall>c \<in> set cs. cmd_key c = messageHistoryPrefix @ fromAgentID)
            \<and> (\<forall>c \<in> set ds. cmd_key c = messageHistoryPrefix @ req_ToAgent req)
            \<and> set cs \<subseteq> {LTRIM (messageHistoryPrefix @ fromAgentID) 0 99,
                         EXPIRE (messageHistoryPrefix @ fromAgentID) 86400}
            \<and> set ds \<subseteq> {LTRIM (messageHistoryPrefix @ req_ToAgent req) 0 99,
                         EXPIRE (messageHistoryPrefix @ req_ToAgent req) 86400}"
    and "\<forall>k. k \<noteq> messageHistoryPrefix @ fromAgentID \<and> k \<noteq> messageHistoryPrefix @ req_ToAgent req
           \<longrightarrow> lists (snd (SendMessage marshal uid now fromAgentID req w)) k = lists w k"
    and "no_faults w \<longrightarrow>
           lists (snd (SendMessage marshal uid now fromAgentID req w)) (messageHistoryPrefix @ fromAgentID) =
             (if fromAgentID = req_ToAgent req
              then take 100 (data # data # lists w (messageHistoryPrefix @ fromAgentID))
              else take 100 (data # lists w (messageHistoryPrefix @ fromAgentID)))
         \<and> lists (snd (SendMessage marshal uid now fromAgentID req w)) (messageHistoryPrefix @ req_ToAgent req) =
             (if fromAgentID = req_ToAgent req
              then take 100 (data # data # lists w (messageHistoryPrefix @ req_ToAgent req))
              else take 100 (data # lists w (messageHistoryPrefix @ req_ToAgent req)))"
proof -
  define msg where "msg = new_message uid now fromAgentID req"
  define ch where "ch = directMessageChannelPrefix @ req_ToAgent req"
  define kf where "kf = messageHistoryPrefix @ fromAgentID"
  define kt where "kt = messageHistoryPrefix @ req_ToAgent req"
  define N where "N = (100::nat)"
  define w1 where "w1 = snd (Publish ch data w)"
  define s2 where "s2 = snd (storeMessageHistory marshal fromAgentID msg w1)"
  define w2 where "w2 = store_or_warn ''Warning: failed to store sender message history: ''
                  marshal fromAgentID msg w1"
  define s3 where "s3 = snd (storeMessageHistory marshal (req_ToAgent req) msg w2)"
  define w' where "w' = snd (SendMessage marshal uid now fromAgentID req w)"
  have ch: "determine_channel (req_ToAgent req) = ch"
    using b by (simp add: determine_channel_def ch_def)
  have i: "fst (issue (PUBLISH ch data) w) = None"
    using p by (simp add: ch Publish_fst)
  have m': "marshal msg = Inr data" using m by (simp add: msg_def)
  have snd_eq: "w' = store_or_warn ''Warning: failed to store receiver message history: ''
                  marshal (req_ToAgent req) msg w2"
    using SendMessage_published [where marshal = marshal, OF m p] b
    by (simp add: w'_def Let_def ch w1_def w2_def msg_def)
  have f1: "published w1 = published w @ [(ch, data)]" "lists w1 = lists w"
    "trace w1 = trace w @ [PUBLISH ch data]" "outcomes w1 = tl (outcomes w)"
    by (simp_all add: w1_def Publish_proj i)
  have f2: "published w2 = published w1" "lists w2 = lists s2" "trace w2 = trace s2"
    "outcomes w2 = outcomes s2"
    by (simp_all add: w2_def s2_def store_or_warn_proj store_published)
  have f3: "published w' = published w2" "lists w' = lists s3" "trace w' = trace s3"
    by (simp_all add: snd_eq s3_def store_or_warn_proj store_published)
  show "published w' = published w @ [(ch, data)]"
    by (simp add: f3 f2 f1)
  obtain cs where cs: "trace s2 = trace w1 @ LPUSH kf data # cs" "\<forall>c \<in> set cs. cmd_key c = kf"
    "set cs \<subseteq> {LTRIM kf 0 99, EXPIRE kf 86400}"
    unfolding s2_def kf_def using store_trace_rest [where marshal = marshal, OF m'] by blast
  obtain ds where ds: "trace s3 = trace w2 @ LPUSH kt data # ds" "\<forall>c \<in> set ds. cmd_key c = kt"
    "set ds \<subseteq> {LTRIM kt 0 99, EXPIRE kt 86400}"
    unfolding s3_def kt_def using store_trace_rest [where marshal = marshal, OF m'] by blast
  have "trace w' = trace w @ (PUBLISH ch data # LPUSH kf data # cs @ LPUSH kt data # ds)"
    by (simp add: f3 ds(1) f2 cs(1) f1)
  then have "commands_since w w' = PUBLISH ch data # LPUSH kf data # cs @ LPUSH kt data # ds"
    by (rule commands_since_append)
  then show "\<exists>cs ds. commands_since w w' = PUBLISH ch data # LPUSH kf data # cs @ LPUSH kt data # ds
            \<and> (\<forall>c \<in> set cs. cmd_key c = kf) \<and> (\<forall>c \<in> set ds. cmd_key c = kt)
            \<and> set cs \<subseteq> {LTRIM kf 0 99, EXPIRE kf 86400}
            \<and> set ds \<subseteq> {LTRIM kt 0 99, EXPIRE kt 86400}"
    using cs(2,3) ds(2,3) by blast
  show "\<forall>k. k \<noteq> kf \<and> k \<noteq> kt \<longrightarrow> lists w' k = lists w k"
    by (simp add: f3 s3_def store_lists_other kt_def f2 s2_def kf_def f1)
  show "no_faults w \<longrightarrow>
           lists w' kf = (if fromAgentID = req_ToAgent req then take N (data # data # lists w kf)
                          else take N (data # lists w kf))
         \<and> lists w' kt = (if fromAgentID = req_ToAgent req then take N (data # data # lists w kt)
                          else take N (data # lists w kt))"
  proof
    assume nf: "no_faults w"
    have nf1: "no_faults w1"
      using nf f1(4) no_faults_tl by blast
    have nf2: "no_faults w2"
      using store_no_faults [where marshal = marshal, OF m' nf1, of fromAgentID]
        no_faults_cong [OF f2(4)] by (simp add: s2_def)
    have l2: "lists s2 = (lists w)(kf := take N (data # lists w kf))"
      using store_ok(2) [where marshal = marshal, OF m' nf1, of fromAgentID]
      by (simp add: s2_def kf_def N_def f1)
    have l3: "lists s3 = (lists w2)(kt := take N (data # lists w2 kt))"
      using store_ok(2) [where marshal = marshal, OF m' nf2, of "req_ToAgent req"]
      by (simp add: s3_def kt_def N_def)
    have keys: "kf = kt \<longleftrightarrow> fromAgentID = req_ToAgent req"
      by (simp add: kf_def kt_def)
    show "lists w' kf = (if fromAgentID = req_ToAgent req then take N (data # data # lists w kf)
                          else take N (data # lists w kf))
         \<and> lists w' kt = (if fromAgentID = req_ToAgent req then take N (data # data # lists w kt)
                          else take N (data # lists w kt))"
    proof (cases "fromAgentID = req_ToAgent req")
      case True
      then have "kf = kt" using keys by simp
      then show ?thesis
        using True by (simp add: f3 l3 f2 l2 take_Cons_take)
    next
      case False
      then have "kf \<noteq> kt" using keys by simp
      then show ?thesis
        using False by (simp add: f3 l3 f2 l2)
    qed
  qed
qed

lemma example_marshal_new_message:
  "example_marshal (new_message uid now fromAgentID req) = Inr (CHR ''{'' # uid)"
  by (simp add: example_marshal_def new_message_def)

lemma Publish_ok_empty_world:
  "fst (Publish c d empty_world) = None"
  by (simp add: Publish_fst issue_fst empty_world_def)

lemma Get_snd: "snd (Get k w) = w\<lparr>trace := trace w @ [GET k], outcomes := tl (outcomes w)\<rparr>"
  using issue_snd [of "GET k" w]
  by (cases "issue (GET k) w") (auto simp add: Get_def split: option.splits)

lemma registry_Get_snd:
  "snd (registry_Get unmarshal_agent agentID w) =
     w\<lparr>trace := trace w @ [GET (agentKeyPrefix @ agentID)], outcomes := tl (outcomes w)\<rparr>"
  using Get_snd [of "agentKeyPrefix @ agentID" w]
  by (cases "Get (agentKeyPrefix @ agentID) w")
     (auto simp add: registry_Get_def Let_def split: sum.splits error.splits option.splits)

lemma default_type_proj:
  "req_ToAgent (default_type req) = req_ToAgent req"
  "req_Payload (default_type req) = req_Payload req"
  "req_CorrelationID (default_type req) = req_CorrelationID req"
  "req_TTL (default_type req) = req_TTL req"
  "req_Type (default_type req) = (if req_Type req = [] then ''message'' else req_Type req)"
  by (simp_all add: default_type_def MessageTypeMessage_def)

lemma SendMessage_Inr:
  assumes "fst (SendMessage marshal uid now fromAgentID req w) = Inr msg"
  shows "msg = new_message uid now fromAgentID req"
    and "\<exists>data. marshal (new_message uid now fromAgentID req) = Inr data
           \<and> fst (Publish (determine_channel (req_ToAgent req)) data w) = None"
proof -
  obtain data where m: "marshal (new_message uid now fromAgentID req) = Inr data"
    using assms SendMessage_marshal_fails [of marshal uid now fromAgentID req _ w]
    by (cases "marshal (new_message uid now fromAgentID req)") auto
  have p: "fst (Publish (determine_channel (req_ToAgent req)) data w) = None"
    using assms SendMessage_publish_fails [where marshal = marshal, OF m, of w]
    by (cases "fst (Publish (determine_channel (req_ToAgent req)) data w)") auto
  show "\<exists>data. marshal (new_message uid now fromAgentID req) = Inr data
           \<and> fst (Publish (determine_channel (req_ToAgent req)) data w) = None"
    using m p by blast
  show "msg = new_message uid now fromAgentID req"
    using assms SendMessage_published [where marshal = marshal, OF m p] by simp
qed

lemma Send_accepted:
  assumes "fst (Send unmarshal_agent decode marshal uid now fromAgentID body w) = Json_Response st resp"
    and "decode body = Some req"
  shows "fst (SendMessage marshal uid now fromAgentID (default_type req)
               (snd (registry_Get unmarshal_agent fromAgentID w))) =
           Inr (new_message uid now fromAgentID (default_type req))"
    and "snd (Send unmarshal_agent decode marshal uid now fromAgentID body w) =
           snd (SendMessage marshal uid now fromAgentID (default_type req)
               (snd (registry_Get unmarshal_agent fromAgentID w)))"
    and "st = StatusAccepted"
    and "resp = \<lparr>MessageID = uid, resp_Timestamp = now,
                 Channel = ''agent:message:'' @ req_ToAgent req\<rparr>"
    and "req_ToAgent req \<noteq> []"
proof -
  have *: "\<exists>msg. fst (SendMessage marshal uid now fromAgentID (default_type req)
               (snd (registry_Get unmarshal_agent fromAgentID w))) = Inr msg
      \<and> snd (Send unmarshal_agent decode marshal uid now fromAgentID body w) =
           snd (SendMessage marshal uid now fromAgentID (default_type req)
               (snd (registry_Get unmarshal_agent fromAgentID w)))
      \<and> st = StatusAccepted
      \<and> resp = \<lparr>MessageID = ID msg, resp_Timestamp = Timestamp msg,
                 Channel = ''agent:message:'' @ req_ToAgent req\<rparr>
      \<and> req_ToAgent req \<noteq> []"
    using assms
    by (cases "registry_Get unmarshal_agent fromAgentID w";
        cases "SendMessage marshal uid now fromAgentID (default_type req)
               (snd (registry_Get unmarshal_agent fromAgentID w))")
       (auto simp add: Send_def Let_def default_type_def split: sum.splits if_splits)
  then obtain msg where msg: "fst (SendMessage marshal uid now fromAgentID (default_type req)
               (snd (registry_Get unmarshal_agent fromAgentID w))) = Inr msg"
      "snd (Send unmarshal_agent decode marshal uid now fromAgentID body w) =
           snd (SendMessage marshal uid now fromAgentID (default_type req)
               (snd (registry_Get unmarshal_agent fromAgentID w)))"
      "st = StatusAccepted"
      "resp = \<lparr>MessageID = ID msg, resp_Timestamp = Timestamp msg,
                 Channel = ''agent:message:'' @ req_ToAgent req\<rparr>"
      "req_ToAgent req \<noteq> []"
    by blast
  have eq: "msg = new_message uid now fromAgentID (default_type req)"
    using msg(1) by (rule SendMessage_Inr(1))
  show "fst (SendMessage marshal uid now fromAgentID (default_type req)
               (snd (registry_Get unmarshal_agent fromAgentID w))) =
           Inr (new_message uid now fromAgentID (default_type req))"
    using msg(1) eq by simp
  show "snd (Send unmarshal_agent decode marshal uid now fromAgentID body w) =
           snd (SendMessage marshal uid now fromAgentID (default_type req)
               (snd (registry_Get unmarshal_agent fromAgentID w)))"
    by (rule msg(2))
  show "st = StatusAccepted" by (rule msg(3))
  show "resp = \<lparr>MessageID = uid, resp_Timestamp = now,
                 Channel = ''agent:message:'' @ req_ToAgent req\<rparr>"
    using msg(4) eq by (simp add: new_message_def)
  show "req_ToAgent req \<noteq> []" by (rule msg(5))
qed

lemma Send_published:
  assumes "fst (Send unmarshal_agent decode marshal uid now fromAgentID body w) = Json_Response st resp"
    and "decode body = Some req"
  shows "\<exists>data. marshal (new_message uid now fromAgentID (default_type req)) = Inr data
           \<and> published (snd (Send unmarshal_agent decode marshal uid now fromAgentID body w)) =
               published w @ [(determine_channel (req_ToAgent req), data)]"
proof -
  define w1 where "w1 = snd (registry_Get unmarshal_agent fromAgentID w)"
  note acc = Send_accepted [OF assms, folded w1_def]
  obtain data where m: "marshal (new_message uid now fromAgentID (default_type req)) = Inr data"
    and p: "fst (Publish (determine_channel (req_ToAgent (default_type req))) data w1) = None"
    using SendMessage_Inr(2) [OF acc(1)] by blast
  have w1: "published w1 = published w"
    by (simp add: w1_def registry_Get_snd)
  have "published (snd (SendMessage marshal uid now fromAgentID (default_type req) w1)) =
          published w1 @ [(determine_channel (req_ToAgent req), data)]"
  proof (cases "req_ToAgent req = ''broadcast''")
    case True
    then show ?thesis
      using send_to_broadcast(1) [where marshal = marshal, OF m p]
      by (simp add: default_type_proj determine_channel_def)
  next
    case False
    then show ?thesis
      using send_to_agent(1) [where marshal = marshal, OF m p]
      by (simp add: default_type_proj determine_channel_def)
  qed
  then show ?thesis
    using m acc(2) w1 by auto
qed

lemma example_Send:
  "body \<noteq> [] \<Longrightarrow>
   fst (Send Inr example_decode example_marshal uid now ''a1'' body example_registry) =
     Json_Response 202 \<lparr>MessageID = uid, resp_Timestamp = now, Channel = ''agent:message:'' @ body\<rparr>"
  by (simp add: Send_def registry_Get_def Get_def issue_def example_registry_def empty_world_def
      agentKeyPrefix_def example_decode_def example_request_def SendMessage_def example_marshal_def
      new_message_def Publish_def Let_def StatusAccepted_def
      split: prod.splits option.splits)

lemma example_decode_body: "body \<noteq> [] \<Longrightarrow> example_decode body = Some (example_request body [])"
  by (simp add: example_decode_def)


section \<open>The properties\<close>

text \<open>
  Claim C1. When the message serialises and publishing it on the resolved channel fails,
  \<open>SendMessage\<close> returns the error, wrapped as a publish failure; the only command it
  has sent is that \<open>PUBLISH\<close>, so no history write was attempted, and every Redis list,
  every expiry, the published messages and the printed lines are what they were.
\<close>

theorem SendMessage_publish_failure_is_fatal:
  assumes "marshal (new_message uid now fromAgentID req) = Inr data"
    and "fst (Publish (determine_channel (req_ToAgent req)) data w) = Some e"
  shows "fst (SendMessage marshal uid now fromAgentID req w) =
           Inl (Errorf ''failed to publish message: '' e)
       \<and> lists (snd (SendMessage marshal uid now fromAgentID req w)) = lists w
       \<and> expiry (snd (SendMessage marshal uid now fromAgentID req w)) = expiry w
       \<and> published (snd (SendMessage marshal uid now fromAgentID req w)) = published w
       \<and> stdout (snd (SendMessage marshal uid now fromAgentID req w)) = stdout w
       \<and> commands_since w (snd (SendMessage marshal uid now fromAgentID req w)) =
           [PUBLISH (determine_channel (req_ToAgent req)) data]"
proof -
  have "fst (issue (PUBLISH (determine_channel (req_ToAgent req)) data) w) \<noteq> None"
    using assms(2) by (simp add: Publish_fst)
  then show ?thesis
    using SendMessage_publish_fails [where marshal = marshal, OF assms]
    by (simp add: Publish_proj commands_since_append)
qed

text \<open>
  An instance: the pub/sub server refuses the connection.
\<close>

theorem SendMessage_publish_failure_is_fatal_witness:
  "example_marshal (new_message ''u1'' 7 ''a1'' (example_request ''b1'' ''message'')) = Inr ''{u1''
   \<and> fst (Publish (determine_channel (req_ToAgent (example_request ''b1'' ''message''))) ''{u1''
           (empty_world\<lparr>outcomes := [Some ''connection refused'']\<rparr>))
       = Some (Redis_error ''connection refused'')
   \<and> fst (SendMessage example_marshal ''u1'' 7 ''a1'' (example_request ''b1'' ''message'')
           (empty_world\<lparr>outcomes := [Some ''connection refused'']\<rparr>))
       = Inl (Errorf ''failed to publish message: '' (Redis_error ''connection refused''))
   \<and> lists (snd (SendMessage example_marshal ''u1'' 7 ''a1'' (example_request ''b1'' ''message'')
           (empty_world\<lparr>outcomes := [Some ''connection refused'']\<rparr>)))
       = lists (empty_world\<lparr>outcomes := [Some ''connection refused'']\<rparr>)"
proof -
  have h1: "example_marshal (new_message ''u1'' 7 ''a1'' (example_request ''b1'' ''message''))
              = Inr ''{u1''"
    by (simp add: example_marshal_def new_message_def)
  have h2: "fst (Publish (determine_channel (req_ToAgent (example_request ''b1'' ''message''))) ''{u1''
           (empty_world\<lparr>outcomes := [Some ''connection refused'']\<rparr>))
       = Some (Redis_error ''connection refused'')"
    by (simp add: Publish_fst issue_fst)
  show ?thesis
    using h1 h2 SendMessage_publish_failure_is_fatal [where marshal = example_marshal, OF h1 h2]
    by blast
qed

text \<open>
  Claim C2. When the message serialises and the publish succeeds, \<open>SendMessage\<close> returns
  the message it built and no error, whatever the outcomes of the history writes that
  follow (the fault oracle of \<open>w\<close> is arbitrary after its first entry).
\<close>

theorem SendMessage_history_failure_not_fatal:
  assumes "marshal (new_message uid now fromAgentID req) = Inr data"
    and "fst (Publish (determine_channel (req_ToAgent req)) data w) = None"
  shows "fst (SendMessage marshal uid now fromAgentID req w) =
           Inr (new_message uid now fromAgentID req)"
  using SendMessage_published [where marshal = marshal, OF assms] by simp

text \<open>
  An instance: the publish succeeds, then the history write of the sender and the one of
  the recipient both fail.
\<close>

theorem SendMessage_history_failure_not_fatal_witness:
  "example_marshal (new_message ''u1'' 7 ''a1'' (example_request ''b1'' ''message'')) = Inr ''{u1''
   \<and> fst (Publish (determine_channel (req_ToAgent (example_request ''b1'' ''message''))) ''{u1''
           (empty_world\<lparr>outcomes := [None, Some ''down'', Some ''down'']\<rparr>)) = None
   \<and> fst (storeMessageHistory example_marshal ''a1''
           (new_message ''u1'' 7 ''a1'' (example_request ''b1'' ''message''))
           (empty_world\<lparr>outcomes := [Some ''down'', Some ''down'']\<rparr>)) \<noteq> None
   \<and> fst (storeMessageHistory example_marshal ''b1''
           (new_message ''u1'' 7 ''a1'' (example_request ''b1'' ''message''))
           (empty_world\<lparr>outcomes := [Some ''down'']\<rparr>)) \<noteq> None
   \<and> fst (SendMessage example_marshal ''u1'' 7 ''a1'' (example_request ''b1'' ''message'')
           (empty_world\<lparr>outcomes := [None, Some ''down'', Some ''down'']\<rparr>))
       = Inr (new_message ''u1'' 7 ''a1'' (example_request ''b1'' ''message''))"
proof -
  have h1: "example_marshal (new_message ''u1'' 7 ''a1'' (example_request ''b1'' ''message''))
              = Inr ''{u1''"
    by (simp add: example_marshal_def new_message_def)
  have h2: "fst (Publish (determine_channel (req_ToAgent (example_request ''b1'' ''message''))) ''{u1''
           (empty_world\<lparr>outcomes := [None, Some ''down'', Some ''down'']\<rparr>)) = None"
    by (simp add: Publish_fst issue_fst)
  have h3: "fst (storeMessageHistory example_marshal ''a1''
           (new_message ''u1'' 7 ''a1'' (example_request ''b1'' ''message''))
           (empty_world\<lparr>outcomes := [Some ''down'', Some ''down'']\<rparr>)) \<noteq> None"
    by (simp add: store_unfold h1 LPush_fst issue_fst)
  have h4: "fst (storeMessageHistory example_marshal ''b1''
           (new_message ''u1'' 7 ''a1'' (example_request ''b1'' ''message''))
           (empty_world\<lparr>outcomes := [Some ''down'']\<rparr>)) \<noteq> None"
    by (simp add: store_unfold h1 LPush_fst issue_fst)
  show ?thesis
    using h1 h2 h3 h4
      SendMessage_history_failure_not_fatal [where marshal = example_marshal, OF h1 h2]
    by blast
qed

text \<open>
  Claim C3. Let the message serialise and the publish succeed. For the recipient
  \<open>broadcast\<close> the message is published on \<open>agent:broadcast\<close> and the history is written
  once, for the sender: the commands that follow the \<open>PUBLISH\<close> are one \<open>LPUSH\<close> on the
  key of the sender and, at most, the \<open>LTRIM\<close> and \<open>EXPIRE\<close> of that key; no history is
  written for the recipient, every list but the sender's own is left alone, and so is
  \<open>agent:history:broadcast\<close> for every sender other than the sentinel itself. For any other
  recipient the message is published on \<open>agent:message:\<close> followed by the recipient, the
  history is written once for the sender and then once for the recipient, and when no
  command fails both lists receive the message (twice in the same list when sender and
  recipient coincide).
\<close>

theorem SendMessage_routing:
  assumes "marshal (new_message uid now fromAgentID req) = Inr data"
    and "fst (Publish (determine_channel (req_ToAgent req)) data w) = None"
    and "w' = snd (SendMessage marshal uid now fromAgentID req w)"
  shows "(req_ToAgent req = ''broadcast'' \<longrightarrow>
            published w' = published w @ [(''agent:broadcast'', data)]
          \<and> (\<exists>cs. commands_since w w' =
                 PUBLISH ''agent:broadcast'' data # LPUSH (''agent:history:'' @ fromAgentID) data # cs
               \<and> (\<forall>c \<in> set cs. cmd_key c = ''agent:history:'' @ fromAgentID)
               \<and> set cs \<subseteq> {LTRIM (''agent:history:'' @ fromAgentID) 0 99,
                            EXPIRE (''agent:history:'' @ fromAgentID) 86400})
          \<and> (\<forall>k. k \<noteq> ''agent:history:'' @ fromAgentID \<longrightarrow> lists w' k = lists w k)
          \<and> (fromAgentID \<noteq> ''broadcast'' \<longrightarrow>
                lists w' ''agent:history:broadcast'' = lists w ''agent:history:broadcast'')
          \<and> (no_faults w \<longrightarrow>
                lists w' (''agent:history:'' @ fromAgentID) =
                  take 100 (data # lists w (''agent:history:'' @ fromAgentID))))
       \<and> (req_ToAgent req \<noteq> ''broadcast'' \<longrightarrow>
            published w' = published w @ [(''agent:message:'' @ req_ToAgent req, data)]
          \<and> (\<exists>cs ds. commands_since w w' =
                 PUBLISH (''agent:message:'' @ req_ToAgent req) data
                 # LPUSH (''agent:history:'' @ fromAgentID) data # cs
                 @ LPUSH (''agent:history:'' @ req_ToAgent req) data # ds
               \<and> (\<forall>c \<in> set cs. cmd_key c = ''agent:history:'' @ fromAgentID)
               \<and> (\<forall>c \<in> set ds. cmd_key c = ''agent:history:'' @ req_ToAgent req)
               \<and> set cs \<subseteq> {LTRIM (''agent:history:'' @ fromAgentID) 0 99,
                            EXPIRE (''agent:history:'' @ fromAgentID) 86400}
               \<and> set ds \<subseteq> {LTRIM (''agent:history:'' @ req_ToAgent req) 0 99,
                            EXPIRE (''agent:history:'' @ req_ToAgent req) 86400})
          \<and> (\<forall>k. k \<noteq> ''agent:history:'' @ fromAgentID \<and> k \<noteq> ''agent:history:'' @ req_ToAgent req
                \<longrightarrow> lists w' k = lists w k)
          \<and> (no_faults w \<longrightarrow>
                lists w' (''agent:history:'' @ fromAgentID) =
                  (if fromAgentID = req_ToAgent req
                   then take 100 (data # data # lists w (''agent:history:'' @ fromAgentID))
                   else take 100 (data # lists w (''agent:history:'' @ fromAgentID)))
              \<and> lists w' (''agent:history:'' @ req_ToAgent req) =
                  (if fromAgentID = req_ToAgent req
                   then take 100 (data # data # lists w (''agent:history:'' @ req_ToAgent req))
                   else take 100 (data # lists w (''agent:history:'' @ req_ToAgent req)))))"
proof (intro conjI impI)
  assume b: "req_ToAgent req = ''broadcast''"
  note facts = send_to_broadcast [where marshal = marshal, OF assms(1,2) b,
      unfolded broadcastChannel_def messageHistoryPrefix_def, folded assms(3)]
  show "published w' = published w @ [(''agent:broadcast'', data)]"
    by (rule facts(1))
  show "\<exists>cs. commands_since w w' =
                 PUBLISH ''agent:broadcast'' data # LPUSH (''agent:history:'' @ fromAgentID) data # cs
               \<and> (\<forall>c \<in> set cs. cmd_key c = ''agent:history:'' @ fromAgentID)
               \<and> set cs \<subseteq> {LTRIM (''agent:history:'' @ fromAgentID) 0 99,
                            EXPIRE (''agent:history:'' @ fromAgentID) 86400}"
    by (rule facts(2))
  show all: "\<forall>k. k \<noteq> ''agent:history:'' @ fromAgentID \<longrightarrow> lists w' k = lists w k"
    by (rule facts(3))
  show "lists w' ''agent:history:broadcast'' = lists w ''agent:history:broadcast''"
    if "fromAgentID \<noteq> ''broadcast''"
    using that all by simp
  show "lists w' (''agent:history:'' @ fromAgentID) =
                  take 100 (data # lists w (''agent:history:'' @ fromAgentID))"
    if "no_faults w"
    using that facts(4) by blast
next
  assume b: "req_ToAgent req \<noteq> ''broadcast''"
  note facts = send_to_agent [where marshal = marshal, OF assms(1,2) b,
      unfolded directMessageChannelPrefix_def messageHistoryPrefix_def, folded assms(3)]
  show "published w' = published w @ [(''agent:message:'' @ req_ToAgent req, data)]"
    by (rule facts(1))
  show "\<exists>cs ds. commands_since w w' =
                 PUBLISH (''agent:message:'' @ req_ToAgent req) data
                 # LPUSH (''agent:history:'' @ fromAgentID) data # cs
                 @ LPUSH (''agent:history:'' @ req_ToAgent req) data # ds
               \<and> (\<forall>c \<in> set cs. cmd_key c = ''agent:history:'' @ fromAgentID)
               \<and> (\<forall>c \<in> set ds. cmd_key c = ''agent:history:'' @ req_ToAgent req)
               \<and> set cs \<subseteq> {LTRIM (''agent:history:'' @ fromAgentID) 0 99,
                            EXPIRE (''agent:history:'' @ fromAgentID) 86400}
               \<and> set ds \<subseteq> {LTRIM (''agent:history:'' @ req_ToAgent req) 0 99,
                            EXPIRE (''agent:history:'' @ req_ToAgent req) 86400}"
    by (rule facts(2))
  show "\<forall>k. k \<noteq> ''agent:history:'' @ fromAgentID \<and> k \<noteq> ''agent:history:'' @ req_ToAgent req
                \<longrightarrow> lists w' k = lists w k"
    by (rule facts(3))
  show "lists w' (''agent:history:'' @ fromAgentID) =
                  (if fromAgentID = req_ToAgent req
                   then take 100 (data # data # lists w (''agent:history:'' @ fromAgentID))
                   else take 100 (data # lists w (''agent:history:'' @ fromAgentID)))"
    if "no_faults w"
    using that facts(4) by blast
  show "lists w' (''agent:history:'' @ req_ToAgent req) =
                  (if fromAgentID = req_ToAgent req
                   then take 100 (data # data # lists w (''agent:history:'' @ req_ToAgent req))
                   else take 100 (data # lists w (''agent:history:'' @ req_ToAgent req)))"
    if "no_faults w"
    using that facts(4) by blast
qed

text \<open>
  Two instances on a fresh world: agent \<open>a1\<close> broadcasts, then writes to \<open>b1\<close>.
\<close>

theorem SendMessage_routing_witness:
  "example_marshal (new_message ''u1'' 7 ''a1'' (example_request ''broadcast'' ''event'')) = Inr ''{u1''
   \<and> fst (Publish (determine_channel (req_ToAgent (example_request ''broadcast'' ''event''))) ''{u1''
           empty_world) = None
   \<and> req_ToAgent (example_request ''broadcast'' ''event'') = ''broadcast''
   \<and> ''a1'' \<noteq> ''broadcast''
   \<and> no_faults empty_world
   \<and> published (snd (SendMessage example_marshal ''u1'' 7 ''a1''
         (example_request ''broadcast'' ''event'') empty_world)) = [(''agent:broadcast'', ''{u1'')]
   \<and> lists (snd (SendMessage example_marshal ''u1'' 7 ''a1''
         (example_request ''broadcast'' ''event'') empty_world)) ''agent:history:a1'' = [''{u1'']
   \<and> lists (snd (SendMessage example_marshal ''u1'' 7 ''a1''
         (example_request ''broadcast'' ''event'') empty_world)) ''agent:history:broadcast'' = []
   \<and> example_marshal (new_message ''u2'' 8 ''a1'' (example_request ''b1'' ''event'')) = Inr ''{u2''
   \<and> fst (Publish (determine_channel (req_ToAgent (example_request ''b1'' ''event''))) ''{u2''
           empty_world) = None
   \<and> req_ToAgent (example_request ''b1'' ''event'') \<noteq> ''broadcast''
   \<and> published (snd (SendMessage example_marshal ''u2'' 8 ''a1''
         (example_request ''b1'' ''event'') empty_world)) = [(''agent:message:b1'', ''{u2'')]
   \<and> lists (snd (SendMessage example_marshal ''u2'' 8 ''a1''
         (example_request ''b1'' ''event'') empty_world)) ''agent:history:a1'' = [''{u2'']
   \<and> lists (snd (SendMessage example_marshal ''u2'' 8 ''a1''
         (example_request ''b1'' ''event'') empty_world)) ''agent:history:b1'' = [''{u2'']
   \<and> lists (snd (SendMessage example_marshal ''u2'' 8 ''a1''
         (example_request ''b1'' ''event'') empty_world)) ''agent:history:c1'' = []"
proof -
  have h1: "example_marshal (new_message ''u1'' 7 ''a1'' (example_request ''broadcast'' ''event''))
              = Inr ''{u1''"
    by (rule example_marshal_new_message)
  have h2: "fst (Publish (determine_channel (req_ToAgent (example_request ''broadcast'' ''event'')))
              ''{u1'' empty_world) = None"
    by (rule Publish_ok_empty_world)
  have h3: "req_ToAgent (example_request ''broadcast'' ''event'') = ''broadcast''"
    by (simp add: example_request_def)
  have h4: "''a1'' \<noteq> ''broadcast''" by simp
  have h5: "no_faults empty_world" by (rule no_faults_empty_world)
  have g1: "example_marshal (new_message ''u2'' 8 ''a1'' (example_request ''b1'' ''event''))
              = Inr ''{u2''"
    by (rule example_marshal_new_message)
  have g2: "fst (Publish (determine_channel (req_ToAgent (example_request ''b1'' ''event'')))
              ''{u2'' empty_world) = None"
    by (rule Publish_ok_empty_world)
  have g3: "req_ToAgent (example_request ''b1'' ''event'') \<noteq> ''broadcast''"
    by (simp add: example_request_def)
  have e: "lists empty_world = (\<lambda>k. [])" "published empty_world = []"
    by (simp_all add: empty_world_def)
  have r: "req_ToAgent (example_request ''b1'' ''event'') = ''b1''"
    by (simp add: example_request_def)
  show ?thesis
    using h1 h2 h3 h4 h5 g1 g2 g3
      SendMessage_routing [where marshal = example_marshal, OF h1 h2 refl]
      SendMessage_routing [where marshal = example_marshal, OF g1 g2 refl]
    by (simp add: e r)
qed

text \<open>
  Claim C4. A send request reaches the broker through the handler \<open>Send\<close>, which replaces
  an empty kind by \<open>message\<close> before its call of \<open>SendMessage\<close>; the request the broker is
  given never has an empty kind. For every request the handler accepts, that call returns
  the message whose id is the one drawn for the call, whose sender, recipient, payload,
  correlation id and time to live are those of the request, whose kind is the kind of
  the request or \<open>message\<close> when the request left it empty, and whose timestamp is the
  clock reading; this message is the one published, and the response carries its id and
  timestamp. The broker itself copies every field of the request it is given. The id is
  the generator's: two sends that drew different ids return messages with different ids.
\<close>

theorem SendMessage_copies_request:
  "(marshal (new_message uid now fromAgentID req) = Inr data
      \<and> fst (Publish (determine_channel (req_ToAgent req)) data w) = None
    \<longrightarrow> fst (SendMessage marshal uid now fromAgentID req w) =
          Inr \<lparr>ID = uid, FromAgent = fromAgentID, ToAgent = req_ToAgent req, Type = req_Type req,
               Payload = req_Payload req, CorrelationID = req_CorrelationID req,
               Timestamp = now, TTL = req_TTL req\<rparr>)
   \<and> (fst (Send unmarshal_agent decode marshal uid now fromAgentID body w0) = Json_Response st resp
      \<and> decode body = Some req0
    \<longrightarrow> fst (SendMessage marshal uid now fromAgentID (default_type req0)
              (snd (registry_Get unmarshal_agent fromAgentID w0))) =
          Inr \<lparr>ID = uid, FromAgent = fromAgentID, ToAgent = req_ToAgent req0,
               Type = (if req_Type req0 = [] then ''message'' else req_Type req0),
               Payload = req_Payload req0, CorrelationID = req_CorrelationID req0,
               Timestamp = now, TTL = req_TTL req0\<rparr>
      \<and> snd (Send unmarshal_agent decode marshal uid now fromAgentID body w0) =
          snd (SendMessage marshal uid now fromAgentID (default_type req0)
                (snd (registry_Get unmarshal_agent fromAgentID w0)))
      \<and> req_Type (default_type req0) \<noteq> []
      \<and> MessageID resp = uid \<and> resp_Timestamp resp = now
      \<and> (\<exists>sent. marshal \<lparr>ID = uid, FromAgent = fromAgentID, ToAgent = req_ToAgent req0,
                    Type = (if req_Type req0 = [] then ''message'' else req_Type req0),
                    Payload = req_Payload req0, CorrelationID = req_CorrelationID req0,
                    Timestamp = now, TTL = req_TTL req0\<rparr> = Inr sent
            \<and> published (snd (Send unmarshal_agent decode marshal uid now fromAgentID body w0)) =
                published w0 @ [(determine_channel (req_ToAgent req0), sent)]))
   \<and> (fst (SendMessage marshal uid now fromAgentID req w) = Inr msg
      \<and> fst (SendMessage marshal' uid' now' fromAgentID' req' w') = Inr msg'
      \<and> uid \<noteq> uid'
    \<longrightarrow> ID msg \<noteq> ID msg')"
proof (intro conjI impI)
  assume a: "marshal (new_message uid now fromAgentID req) = Inr data
      \<and> fst (Publish (determine_channel (req_ToAgent req)) data w) = None"
  then have "fst (SendMessage marshal uid now fromAgentID req w) = Inr (new_message uid now fromAgentID req)"
    using SendMessage_published [where marshal = marshal, of uid now fromAgentID req data w] by simp
  then show "fst (SendMessage marshal uid now fromAgentID req w) =
          Inr \<lparr>ID = uid, FromAgent = fromAgentID, ToAgent = req_ToAgent req, Type = req_Type req,
               Payload = req_Payload req, CorrelationID = req_CorrelationID req,
               Timestamp = now, TTL = req_TTL req\<rparr>"
    by (simp add: new_message_def)
next
  assume a: "fst (Send unmarshal_agent decode marshal uid now fromAgentID body w0) = Json_Response st resp
      \<and> decode body = Some req0"
  then have s: "fst (Send unmarshal_agent decode marshal uid now fromAgentID body w0) = Json_Response st resp"
    and d: "decode body = Some req0" by simp_all
  show "fst (SendMessage marshal uid now fromAgentID (default_type req0)
              (snd (registry_Get unmarshal_agent fromAgentID w0))) =
          Inr \<lparr>ID = uid, FromAgent = fromAgentID, ToAgent = req_ToAgent req0,
               Type = (if req_Type req0 = [] then ''message'' else req_Type req0),
               Payload = req_Payload req0, CorrelationID = req_CorrelationID req0,
               Timestamp = now, TTL = req_TTL req0\<rparr>"
    using Send_accepted(1) [OF s d] by (simp add: new_message_def default_type_proj)
  show "snd (Send unmarshal_agent decode marshal uid now fromAgentID body w0) =
          snd (SendMessage marshal uid now fromAgentID (default_type req0)
                (snd (registry_Get unmarshal_agent fromAgentID w0)))"
    by (rule Send_accepted(2) [OF s d])
  show "req_Type (default_type req0) \<noteq> []"
    by (simp add: default_type_proj)
  show "MessageID resp = uid" "resp_Timestamp resp = now"
    using Send_accepted(4) [OF s d] by simp_all
  show "\<exists>sent. marshal \<lparr>ID = uid, FromAgent = fromAgentID, ToAgent = req_ToAgent req0,
                    Type = (if req_Type req0 = [] then ''message'' else req_Type req0),
                    Payload = req_Payload req0, CorrelationID = req_CorrelationID req0,
                    Timestamp = now, TTL = req_TTL req0\<rparr> = Inr sent
            \<and> published (snd (Send unmarshal_agent decode marshal uid now fromAgentID body w0)) =
                published w0 @ [(determine_channel (req_ToAgent req0), sent)]"
    using Send_published [OF s d] by (simp add: new_message_def default_type_proj)
next
  assume a: "fst (SendMessage marshal uid now fromAgentID req w) = Inr msg
      \<and> fst (SendMessage marshal' uid' now' fromAgentID' req' w') = Inr msg'
      \<and> uid \<noteq> uid'"
  then have "msg = new_message uid now fromAgentID req"
    and "msg' = new_message uid' now' fromAgentID' req'"
    using SendMessage_Inr(1) by blast+
  then show "ID msg \<noteq> ID msg'"
    using a by (simp add: new_message_def)
qed

text \<open>
  An instance: the registered agent \<open>a1\<close> posts a request without a kind to \<open>b1\<close>; a
  request of kind \<open>event\<close> given to the broker; two sends with the ids \<open>u1\<close> and \<open>u2\<close>.
\<close>

theorem SendMessage_copies_request_witness:
  "example_marshal (new_message ''u1'' 7 ''a1'' (example_request ''b1'' ''event'')) = Inr ''{u1''
   \<and> fst (Publish (determine_channel (req_ToAgent (example_request ''b1'' ''event''))) ''{u1''
           empty_world) = None
   \<and> fst (SendMessage example_marshal ''u1'' 7 ''a1'' (example_request ''b1'' ''event'') empty_world) =
       Inr \<lparr>ID = ''u1'', FromAgent = ''a1'', ToAgent = ''b1'', Type = ''event'', Payload = JNull,
            CorrelationID = [], Timestamp = 7, TTL = 0\<rparr>
   \<and> fst (Send Inr example_decode example_marshal ''u1'' 7 ''a1'' ''b1'' example_registry) =
       Json_Response 202 \<lparr>MessageID = ''u1'', resp_Timestamp = 7, Channel = ''agent:message:b1''\<rparr>
   \<and> example_decode ''b1'' = Some (example_request ''b1'' [])
   \<and> req_Type (example_request ''b1'' []) = []
   \<and> fst (SendMessage example_marshal ''u1'' 7 ''a1'' (default_type (example_request ''b1'' []))
           (snd (registry_Get Inr ''a1'' example_registry))) =
       Inr \<lparr>ID = ''u1'', FromAgent = ''a1'', ToAgent = ''b1'', Type = ''message'', Payload = JNull,
            CorrelationID = [], Timestamp = 7, TTL = 0\<rparr>
   \<and> (\<exists>sent. example_marshal \<lparr>ID = ''u1'', FromAgent = ''a1'', ToAgent = ''b1'', Type = ''message'',
                  Payload = JNull, CorrelationID = [], Timestamp = 7, TTL = 0\<rparr> = Inr sent
          \<and> published (snd (Send Inr example_decode example_marshal ''u1'' 7 ''a1'' ''b1''
                example_registry)) = [(''agent:message:b1'', sent)])
   \<and> fst (SendMessage example_marshal ''u2'' 8 ''a1'' (example_request ''b1'' ''event'') empty_world) =
       Inr (new_message ''u2'' 8 ''a1'' (example_request ''b1'' ''event''))
   \<and> ''u1'' \<noteq> ''u2''
   \<and> ID (new_message ''u1'' 7 ''a1'' (example_request ''b1'' ''event'')) \<noteq>
       ID (new_message ''u2'' 8 ''a1'' (example_request ''b1'' ''event''))"
proof -
  have h1: "example_marshal (new_message ''u1'' 7 ''a1'' (example_request ''b1'' ''event''))
              = Inr ''{u1''"
    by (rule example_marshal_new_message)
  have h2: "fst (Publish (determine_channel (req_ToAgent (example_request ''b1'' ''event''))) ''{u1''
           empty_world) = None"
    by (rule Publish_ok_empty_world)
  have h3: "fst (Send Inr example_decode example_marshal ''u1'' 7 ''a1'' ''b1'' example_registry) =
     Json_Response 202 \<lparr>MessageID = ''u1'', resp_Timestamp = 7, Channel = ''agent:message:b1''\<rparr>"
    using example_Send [of "''b1''" "''u1''" 7] by simp
  have h4: "example_decode ''b1'' = Some (example_request ''b1'' [])"
    by (rule example_decode_body) simp
  have g1: "example_marshal (new_message ''u2'' 8 ''a1'' (example_request ''b1'' ''event''))
              = Inr ''{u2''"
    by (rule example_marshal_new_message)
  have g2: "fst (Publish (determine_channel (req_ToAgent (example_request ''b1'' ''event''))) ''{u2''
           empty_world) = None"
    by (rule Publish_ok_empty_world)
  have h5: "fst (SendMessage example_marshal ''u1'' 7 ''a1'' (example_request ''b1'' ''event'') empty_world) =
       Inr (new_message ''u1'' 7 ''a1'' (example_request ''b1'' ''event''))"
    using SendMessage_published [where marshal = example_marshal, OF h1 h2] by simp
  have h6: "fst (SendMessage example_marshal ''u2'' 8 ''a1'' (example_request ''b1'' ''event'') empty_world) =
       Inr (new_message ''u2'' 8 ''a1'' (example_request ''b1'' ''event''))"
    using SendMessage_published [where marshal = example_marshal, OF g1 g2] by simp
  have h7: "''u1'' \<noteq> ''u2''" by simp
  have h8: "req_Type (example_request ''b1'' []) = []"
    by (simp add: example_request_def)
  have e: "published example_registry = []"
    by (simp add: example_registry_def empty_world_def)
  note inst =
      SendMessage_copies_request [where marshal = example_marshal and uid = "''u1''" and now = 7
        and fromAgentID = "''a1''" and req = "example_request ''b1'' ''event''" and data = "''{u1''"
        and w = empty_world and unmarshal_agent = Inr and decode = example_decode
        and body = "''b1''" and ?w0.0 = example_registry and st = 202
        and resp = "\<lparr>MessageID = ''u1'', resp_Timestamp = 7, Channel = ''agent:message:b1''\<rparr>"
        and ?req0.0 = "example_request ''b1'' []"
        and msg = "new_message ''u1'' 7 ''a1'' (example_request ''b1'' ''event'')"
        and marshal' = example_marshal and uid' = "''u2''" and now' = 8 and fromAgentID' = "''a1''"
        and req' = "example_request ''b1'' ''event''" and w' = empty_world
        and msg' = "new_message ''u2'' 8 ''a1'' (example_request ''b1'' ''event'')"]
  note broker = inst [THEN conjunct1, THEN mp, OF conjI [OF h1 h2]]
  note handler = inst [THEN conjunct2, THEN conjunct1, THEN mp, OF conjI [OF h3 h4]]
  note fresh = inst [THEN conjunct2, THEN conjunct2, THEN mp, OF conjI [OF h5 conjI [OF h6 h7]]]
  have c1: "fst (SendMessage example_marshal ''u1'' 7 ''a1'' (example_request ''b1'' ''event'') empty_world) =
       Inr \<lparr>ID = ''u1'', FromAgent = ''a1'', ToAgent = ''b1'', Type = ''event'', Payload = JNull,
            CorrelationID = [], Timestamp = 7, TTL = 0\<rparr>"
    using broker by (simp add: example_request_def)
  have c2: "fst (SendMessage example_marshal ''u1'' 7 ''a1'' (default_type (example_request ''b1'' []))
           (snd (registry_Get Inr ''a1'' example_registry))) =
       Inr \<lparr>ID = ''u1'', FromAgent = ''a1'', ToAgent = ''b1'', Type = ''message'', Payload = JNull,
            CorrelationID = [], Timestamp = 7, TTL = 0\<rparr>"
    using handler [THEN conjunct1] by (simp add: example_request_def)
  have c3: "\<exists>sent. example_marshal \<lparr>ID = ''u1'', FromAgent = ''a1'', ToAgent = ''b1'', Type = ''message'',
                  Payload = JNull, CorrelationID = [], Timestamp = 7, TTL = 0\<rparr> = Inr sent
          \<and> published (snd (Send Inr example_decode example_marshal ''u1'' 7 ''a1'' ''b1''
                example_registry)) = [(''agent:message:b1'', sent)]"
    using handler [THEN conjunct2, THEN conjunct2, THEN conjunct2, THEN conjunct2, THEN conjunct2]
    by (simp add: e example_request_def determine_channel_def directMessageChannelPrefix_def)
  show ?thesis
    using h1 h2 h3 h4 h6 h7 h8 c1 c2 c3 fresh by blast
qed

text \<open>
  Claim C5. When the handler \<open>Send\<close> accepts a request, the channel in its response is
  \<open>agent:message:\<close> followed by the recipient, while the message went out on the channel
  the broker resolved. For the recipient \<open>broadcast\<close> the response says
  \<open>agent:message:broadcast\<close> and the message was published on \<open>agent:broadcast\<close>; the
  two channels agree exactly when the recipient is not \<open>broadcast\<close>.
\<close>

theorem Send_reported_channel:
  assumes "fst (Send unmarshal_agent decode marshal uid now fromAgentID body w) = Json_Response st resp"
    and "decode body = Some req"
  shows "Channel resp = ''agent:message:'' @ req_ToAgent req
       \<and> (\<exists>data. published (snd (Send unmarshal_agent decode marshal uid now fromAgentID body w)) =
                    published w @ [(determine_channel (req_ToAgent req), data)])
       \<and> (req_ToAgent req = ''broadcast'' \<longrightarrow>
             Channel resp = ''agent:message:broadcast''
           \<and> determine_channel (req_ToAgent req) = ''agent:broadcast'')
       \<and> ((Channel resp = determine_channel (req_ToAgent req)) = (req_ToAgent req \<noteq> ''broadcast''))"
proof -
  have c: "Channel resp = ''agent:message:'' @ req_ToAgent req"
    using Send_accepted(4) [OF assms] by simp
  have p: "\<exists>data. published (snd (Send unmarshal_agent decode marshal uid now fromAgentID body w)) =
                    published w @ [(determine_channel (req_ToAgent req), data)]"
    using Send_published [OF assms] by blast
  show ?thesis
    using c p
    by (auto simp add: determine_channel_def directMessageChannelPrefix_def broadcastChannel_def)
qed

text \<open>
  An instance: the registered agent \<open>a1\<close> posts a broadcast.
\<close>

theorem Send_reported_channel_witness:
  "fst (Send Inr example_decode example_marshal ''u1'' 7 ''a1'' ''broadcast'' example_registry) =
     Json_Response 202 \<lparr>MessageID = ''u1'', resp_Timestamp = 7, Channel = ''agent:message:broadcast''\<rparr>
   \<and> example_decode ''broadcast'' = Some (example_request ''broadcast'' [])
   \<and> req_ToAgent (example_request ''broadcast'' []) = ''broadcast''
   \<and> determine_channel ''broadcast'' = ''agent:broadcast''
   \<and> map fst (published (snd (Send Inr example_decode example_marshal ''u1'' 7 ''a1'' ''broadcast''
         example_registry))) = [''agent:broadcast'']
   \<and> ''agent:message:broadcast'' \<noteq> determine_channel ''broadcast''"
proof -
  have h1: "fst (Send Inr example_decode example_marshal ''u1'' 7 ''a1'' ''broadcast'' example_registry) =
     Json_Response 202 \<lparr>MessageID = ''u1'', resp_Timestamp = 7, Channel = ''agent:message:'' @ ''broadcast''\<rparr>"
    by (rule example_Send) simp
  have h2: "example_decode ''broadcast'' = Some (example_request ''broadcast'' [])"
    by (rule example_decode_body) simp
  have h3: "req_ToAgent (example_request ''broadcast'' []) = ''broadcast''"
    by (simp add: example_request_def)
  have e: "published example_registry = []"
    by (simp add: example_registry_def empty_world_def)
  show ?thesis
    using h1 h2 h3 Send_reported_channel [OF h1 h2]
    by (auto simp add: e)
qed

text \<open>
  Claim C6. When no command fails and the codec reads back what it wrote, appending 105
  messages to the history of one agent and listing it with a limit of at least 100
  returns the last 100 of them, oldest first: the first five are gone. The stored list
  then holds at most 100 entries, as it does after every append that reports success,
  from any world.
\<close>

theorem history_bounded_to_100:
  assumes "no_faults w"
    and "\<forall>m \<in> set ms. \<exists>d. marshal m = Inr d \<and> unmarshal d = Some m"
    and "length ms = 100 + 5"
    and "100 \<le> limit"
  shows "fst (GetMessageHistory unmarshal agentID limit (append_messages marshal agentID ms w)) =
           Inr (drop 5 ms)
       \<and> length (drop 5 ms) = 100
       \<and> length (lists (append_messages marshal agentID ms w) (messageHistoryPrefix @ agentID)) \<le> 100
       \<and> (\<forall>m' w'. fst (storeMessageHistory marshal agentID m' w') = None \<longrightarrow>
            length (lists (snd (storeMessageHistory marshal agentID m' w'))
                      (messageHistoryPrefix @ agentID)) \<le> 100)"
proof -
  obtain enc where codec: "\<forall>m \<in> set ms. marshal m = Inr (enc m) \<and> unmarshal (enc m) = Some m"
    using assms(2) by (rule codec_choice)
  have c: "clamp_limit limit = 100"
    using assms(4) by (auto simp add: clamp_limit_def)
  have "fst (GetMessageHistory unmarshal agentID limit (append_messages marshal agentID ms w)) =
           Inr (drop (length ms - clamp_limit limit) ms)"
    using assms(1) codec by (rule history_after_appends) (simp add: c assms(3))
  then have 1: "fst (GetMessageHistory unmarshal agentID limit (append_messages marshal agentID ms w)) =
           Inr (drop 5 ms)"
    by (simp add: c assms(3))
  have mar: "\<forall>m \<in> set ms. marshal m = Inr (enc m)"
    using codec by simp
  have "ms \<noteq> []" using assms(3) by auto
  then have 2: "length (lists (append_messages marshal agentID ms w) (messageHistoryPrefix @ agentID)) \<le> 100"
    using append_messages_lists [OF mar assms(1), of agentID] by simp
  show ?thesis
    using 1 2 store_bound by (simp add: assms(3))
qed

text \<open>
  An instance: 105 messages appended to an empty history.
\<close>

theorem history_bounded_to_100_witness:
  "no_faults empty_world
   \<and> list_all (\<lambda>m. \<exists>d. example_marshal m = Inr d \<and> example_unmarshal d = Some m)
         (example_messages 105)
   \<and> length (example_messages 105) = 100 + 5
   \<and> (100::int) \<le> 100
   \<and> fst (GetMessageHistory example_unmarshal ''a1'' 100
            (append_messages example_marshal ''a1'' (example_messages 105) empty_world))
       = Inr (drop 5 (example_messages 105))
   \<and> fst (storeMessageHistory example_marshal ''a1'' (example_message ''m1'') empty_world) = None
   \<and> length (lists (snd (storeMessageHistory example_marshal ''a1'' (example_message ''m1'') empty_world))
        (messageHistoryPrefix @ ''a1'')) \<le> 100"
proof -
  have h1: "no_faults empty_world" by (rule no_faults_empty_world)
  have h2: "\<forall>m \<in> set (example_messages 105). \<exists>d. example_marshal m = Inr d \<and> example_unmarshal d = Some m"
    by (rule example_codec)
  have h3: "length (example_messages 105) = 100 + 5" by (simp add: example_messages_def)
  have h4: "(100::int) \<le> 100" by simp
  have h5: "fst (storeMessageHistory example_marshal ''a1'' (example_message ''m1'') empty_world) = None"
    by (rule store_ok(1) [where data = "''{m1''"])
       (simp_all add: example_marshal_def example_message_def no_faults_empty_world)
  have h2': "list_all (\<lambda>m. \<exists>d. example_marshal m = Inr d \<and> example_unmarshal d = Some m)
         (example_messages 105)"
    using h2 by (simp add: list_all_iff)
  show ?thesis
    using h1 h2' h3 h4 h5
      history_bounded_to_100 [where marshal = example_marshal and unmarshal = example_unmarshal
        and agentID = "''a1''", OF h1 h2 h3 h4]
    by blast
qed

text \<open>
  Claim C7. For a limit between 1 and 100, a read that reaches the store returns the
  newest \<open>limit\<close> stored entries in the reverse of their stored (newest first) order.
  So after messages are appended in the order \<open>ms\<close>, with no failing command and a codec
  that reads back what it wrote, the read returns the last \<open>limit\<close> of them in the order
  they were sent (all of them when the history was empty and they are fewer).
\<close>

theorem GetMessageHistory_chronological:
  assumes "1 \<le> limit" and "limit \<le> 100"
  shows "(next_succeeds w \<longrightarrow>
            fst (GetMessageHistory unmarshal agentID limit w) =
              Inr (List.map_filter unmarshal
                    (rev (take (nat limit) (lists w (messageHistoryPrefix @ agentID))))))
       \<and> (no_faults w
            \<and> (\<forall>m \<in> set ms. \<exists>d. marshal m = Inr d \<and> unmarshal d = Some m)
            \<and> (lists w (messageHistoryPrefix @ agentID) = [] \<or> nat limit \<le> length ms)
          \<longrightarrow> fst (GetMessageHistory unmarshal agentID limit (append_messages marshal agentID ms w)) =
                Inr (drop (length ms - nat limit) ms))"
proof (intro conjI impI)
  assume "next_succeeds w"
  then show "fst (GetMessageHistory unmarshal agentID limit w) =
              Inr (List.map_filter unmarshal
                    (rev (take (nat limit) (lists w (messageHistoryPrefix @ agentID)))))"
    using assms by (simp add: GetMessageHistory_ok)
next
  assume a: "no_faults w
            \<and> (\<forall>m \<in> set ms. \<exists>d. marshal m = Inr d \<and> unmarshal d = Some m)
            \<and> (lists w (messageHistoryPrefix @ agentID) = [] \<or> nat limit \<le> length ms)"
  then obtain enc where codec: "\<forall>m \<in> set ms. marshal m = Inr (enc m) \<and> unmarshal (enc m) = Some m"
    using codec_choice by blast
  have c: "clamp_limit limit = nat limit"
    using assms by (simp add: clamp_limit_def)
  have nf: "no_faults w" using a by simp
  have "fst (GetMessageHistory unmarshal agentID limit (append_messages marshal agentID ms w)) =
           Inr (drop (length ms - clamp_limit limit) ms)"
    using nf codec by (rule history_after_appends) (use a c in simp)
  then show "fst (GetMessageHistory unmarshal agentID limit (append_messages marshal agentID ms w)) =
                Inr (drop (length ms - nat limit) ms)"
    by (simp add: c)
qed

text \<open>
  Two instances: a stored list of three entries read with limit 2, and three messages
  appended to an empty history and read with limit 2.
\<close>

theorem GetMessageHistory_chronological_witness:
  "(1::int) \<le> 2 \<and> (2::int) \<le> 100
   \<and> next_succeeds (empty_world\<lparr>lists := (\<lambda>k. [''{m3'', ''{m2'', ''{m1''])\<rparr>)
   \<and> fst (GetMessageHistory example_unmarshal ''a1'' 2
            (empty_world\<lparr>lists := (\<lambda>k. [''{m3'', ''{m2'', ''{m1''])\<rparr>))
       = Inr [example_message ''m2'', example_message ''m3'']
   \<and> no_faults empty_world
   \<and> list_all (\<lambda>m. \<exists>d. example_marshal m = Inr d \<and> example_unmarshal d = Some m)
         (example_messages 3)
   \<and> (lists empty_world (messageHistoryPrefix @ ''a1'') = [] \<or> nat 2 \<le> length (example_messages 3))
   \<and> fst (GetMessageHistory example_unmarshal ''a1'' 2
            (append_messages example_marshal ''a1'' (example_messages 3) empty_world))
       = Inr [example_message ''x'', example_message ''xx'']"
proof -
  have h1: "(1::int) \<le> 2" by simp
  have h2: "(2::int) \<le> 100" by simp
  have h3: "next_succeeds (empty_world\<lparr>lists := (\<lambda>k. [''{m3'', ''{m2'', ''{m1''])\<rparr>)"
    by (simp add: next_succeeds_def empty_world_def)
  have h4: "no_faults empty_world" by (rule no_faults_empty_world)
  have h5: "\<forall>m \<in> set (example_messages 3). \<exists>d. example_marshal m = Inr d \<and> example_unmarshal d = Some m"
    by (rule example_codec)
  have h6: "lists empty_world (messageHistoryPrefix @ ''a1'') = [] \<or> nat 2 \<le> length (example_messages 3)"
    by (simp add: empty_world_def)
  have e1: "List.map_filter example_unmarshal (rev (take (nat 2) [''{m3'', ''{m2'', ''{m1'']))
              = [example_message ''m2'', example_message ''m3'']"
    by (simp add: List.map_filter_simps example_unmarshal_def)
  have e2: "drop (length (example_messages 3) - nat 2) (example_messages 3)
              = [example_message ''x'', example_message ''xx'']"
    by (simp add: example_messages_def upt_rec)
  have h5': "list_all (\<lambda>m. \<exists>d. example_marshal m = Inr d \<and> example_unmarshal d = Some m)
         (example_messages 3)"
    using h5 by (simp add: list_all_iff)
  show ?thesis
    using h1 h2 h3 h4 h5 h5' h6 e1 e2
      GetMessageHistory_chronological [where unmarshal = example_unmarshal and marshal = example_marshal,
        OF h1 h2, of "empty_world\<lparr>lists := (\<lambda>k. [''{m3'', ''{m2'', ''{m1''])\<rparr>" "''a1''"]
      GetMessageHistory_chronological [where unmarshal = example_unmarshal and marshal = example_marshal,
        OF h1 h2, of empty_world "''a1''" "example_messages 3"]
    by simp
qed

text \<open>
  Claim C8. A limit that is not positive or exceeds 100 makes \<open>GetMessageHistory\<close> do
  exactly what it does for the limit 100, and when the read of the list succeeds the
  result is a sequence of messages, not an error.
\<close>

theorem GetMessageHistory_limit_clamped:
  assumes "limit \<le> 0 \<or> limit > 100"
  shows "GetMessageHistory unmarshal agentID limit w = GetMessageHistory unmarshal agentID 100 w
       \<and> (next_succeeds w \<longrightarrow> (\<exists>ms. fst (GetMessageHistory unmarshal agentID limit w) = Inr ms))"
proof -
  have "GetMessageHistory unmarshal agentID limit w = GetMessageHistory unmarshal agentID 100 w"
    using assms by (auto simp add: GetMessageHistory_def messageHistoryMax_def)
  moreover have "next_succeeds w \<longrightarrow> (\<exists>ms. fst (GetMessageHistory unmarshal agentID limit w) = Inr ms)"
    by (simp add: GetMessageHistory_ok)
  ultimately show ?thesis by blast
qed

text \<open>
  Two instances: the limits 0 and 100000.
\<close>

theorem GetMessageHistory_limit_clamped_witness:
  "next_succeeds (empty_world\<lparr>lists := (\<lambda>k. [''{m2'', ''{m1''])\<rparr>)
   \<and> ((0::int) \<le> 0 \<or> (0::int) > 100)
   \<and> GetMessageHistory example_unmarshal ''a1'' 0 (empty_world\<lparr>lists := (\<lambda>k. [''{m2'', ''{m1''])\<rparr>)
     = GetMessageHistory example_unmarshal ''a1'' 100 (empty_world\<lparr>lists := (\<lambda>k. [''{m2'', ''{m1''])\<rparr>)
   \<and> ((100000::int) \<le> 0 \<or> (100000::int) > 100)
   \<and> GetMessageHistory example_unmarshal ''a1'' 100000 (empty_world\<lparr>lists := (\<lambda>k. [''{m2'', ''{m1''])\<rparr>)
     = GetMessageHistory example_unmarshal ''a1'' 100 (empty_world\<lparr>lists := (\<lambda>k. [''{m2'', ''{m1''])\<rparr>)"
proof -
  have h1: "(0::int) \<le> 0 \<or> (0::int) > 100" by simp
  have h2: "(100000::int) \<le> 0 \<or> (100000::int) > 100" by simp
  have h3: "next_succeeds (empty_world\<lparr>lists := (\<lambda>k. [''{m2'', ''{m1''])\<rparr>)"
    by (simp add: next_succeeds_def empty_world_def)
  show ?thesis
    using h1 h2 h3 GetMessageHistory_limit_clamped [OF h1] GetMessageHistory_limit_clamped [OF h2]
    by blast
qed

text \<open>
  Claim C9. A read that reaches the store never fails: it returns the entries of the
  window that parse, in order, and nothing else, whatever the unparseable entries in
  between; when no stored entry parses the result is the empty sequence.
\<close>

theorem GetMessageHistory_skips_malformed:
  assumes "next_succeeds w"
  shows "fst (GetMessageHistory unmarshal agentID limit w) =
           Inr (List.map_filter unmarshal
                 (rev (take (nat (if limit \<le> 0 \<or> limit > 100 then 100 else limit))
                        (lists w (messageHistoryPrefix @ agentID)))))
       \<and> map Some (List.map_filter unmarshal
                 (rev (take (nat (if limit \<le> 0 \<or> limit > 100 then 100 else limit))
                        (lists w (messageHistoryPrefix @ agentID))))) =
           filter (\<lambda>r. r \<noteq> None) (map unmarshal
                 (rev (take (nat (if limit \<le> 0 \<or> limit > 100 then 100 else limit))
                        (lists w (messageHistoryPrefix @ agentID)))))
       \<and> ((\<forall>s \<in> set (lists w (messageHistoryPrefix @ agentID)). unmarshal s = None) \<longrightarrow>
             fst (GetMessageHistory unmarshal agentID limit w) = Inr [])"
proof (intro conjI impI)
  show 1: "fst (GetMessageHistory unmarshal agentID limit w) =
           Inr (List.map_filter unmarshal
                 (rev (take (nat (if limit \<le> 0 \<or> limit > 100 then 100 else limit))
                        (lists w (messageHistoryPrefix @ agentID)))))"
    using assms by (rule GetMessageHistory_ok)
  show "map Some (List.map_filter unmarshal
                 (rev (take (nat (if limit \<le> 0 \<or> limit > 100 then 100 else limit))
                        (lists w (messageHistoryPrefix @ agentID))))) =
           filter (\<lambda>r. r \<noteq> None) (map unmarshal
                 (rev (take (nat (if limit \<le> 0 \<or> limit > 100 then 100 else limit))
                        (lists w (messageHistoryPrefix @ agentID)))))"
    by (rule map_filter_as_filter)
  assume "\<forall>s \<in> set (lists w (messageHistoryPrefix @ agentID)). unmarshal s = None"
  then have "\<forall>s \<in> set (rev (take (nat (if limit \<le> 0 \<or> limit > 100 then 100 else limit))
                        (lists w (messageHistoryPrefix @ agentID)))). unmarshal s = None"
    by (auto dest: in_set_takeD)
  then show "fst (GetMessageHistory unmarshal agentID limit w) = Inr []"
    using 1 map_filter_all_None by metis
qed

text \<open>
  Two instances: a history with one foreign entry between two messages, and a history of
  foreign entries only.
\<close>

theorem GetMessageHistory_skips_malformed_witness:
  "next_succeeds (empty_world\<lparr>lists := (\<lambda>k. [''{m2'', ''garbage'', ''{m1''])\<rparr>)
   \<and> fst (GetMessageHistory example_unmarshal ''a1'' 10
            (empty_world\<lparr>lists := (\<lambda>k. [''{m2'', ''garbage'', ''{m1''])\<rparr>))
       = Inr [example_message ''m1'', example_message ''m2'']
   \<and> next_succeeds (empty_world\<lparr>lists := (\<lambda>k. [''junk'', ''garbage''])\<rparr>)
   \<and> list_all (\<lambda>s. example_unmarshal s = None)
         (lists (empty_world\<lparr>lists := (\<lambda>k. [''junk'', ''garbage''])\<rparr>)
            (messageHistoryPrefix @ ''a1''))
   \<and> fst (GetMessageHistory example_unmarshal ''a1'' 10
            (empty_world\<lparr>lists := (\<lambda>k. [''junk'', ''garbage''])\<rparr>)) = Inr []"
proof -
  have h1: "next_succeeds (empty_world\<lparr>lists := (\<lambda>k. [''{m2'', ''garbage'', ''{m1''])\<rparr>)"
    by (simp add: next_succeeds_def empty_world_def)
  have h2: "next_succeeds (empty_world\<lparr>lists := (\<lambda>k. [''junk'', ''garbage''])\<rparr>)"
    by (simp add: next_succeeds_def empty_world_def)
  have h3: "\<forall>s \<in> set (lists (empty_world\<lparr>lists := (\<lambda>k. [''junk'', ''garbage''])\<rparr>)
                    (messageHistoryPrefix @ ''a1'')). example_unmarshal s = None"
    by (simp add: example_unmarshal_def)
  have e1: "List.map_filter example_unmarshal (rev (take (nat 10) [''{m2'', ''garbage'', ''{m1'']))
              = [example_message ''m1'', example_message ''m2'']"
    by (simp add: List.map_filter_simps example_unmarshal_def)
  have h3': "list_all (\<lambda>s. example_unmarshal s = None)
         (lists (empty_world\<lparr>lists := (\<lambda>k. [''junk'', ''garbage''])\<rparr>)
            (messageHistoryPrefix @ ''a1''))"
    by (simp add: example_unmarshal_def)
  show ?thesis
    using h1 h2 h3 h3' e1
      GetMessageHistory_skips_malformed [where unmarshal = example_unmarshal, OF h1, of "''a1''" 10]
      GetMessageHistory_skips_malformed [where unmarshal = example_unmarshal, OF h2, of "''a1''" 10]
    by simp
qed

text \<open>
  Claim C10. Two distinct recipients, neither of them \<open>broadcast\<close>, are reached on distinct
  channels, both different from the broadcast channel; the recipient \<open>broadcast\<close> is
  reached on the fixed channel \<open>agent:broadcast\<close>. The channel is a function of the
  recipient alone.
\<close>

theorem determine_channel_injective:
  assumes "r1 \<noteq> r2" and "r1 \<noteq> ''broadcast''" and "r2 \<noteq> ''broadcast''"
  shows "determine_channel r1 \<noteq> determine_channel r2
       \<and> determine_channel r1 \<noteq> broadcastChannel
       \<and> determine_channel r2 \<noteq> broadcastChannel
       \<and> determine_channel r1 = ''agent:message:'' @ r1
       \<and> determine_channel ''broadcast'' = broadcastChannel
       \<and> broadcastChannel = ''agent:broadcast''"
  using assms
  by (simp add: determine_channel_def directMessageChannelPrefix_def broadcastChannel_def)

text \<open>
  An instance: the recipients \<open>a1\<close> and \<open>b1\<close>.
\<close>

theorem determine_channel_injective_witness:
  "''a1'' \<noteq> ''b1'' \<and> ''a1'' \<noteq> ''broadcast'' \<and> ''b1'' \<noteq> ''broadcast''
   \<and> determine_channel ''a1'' \<noteq> determine_channel ''b1''
   \<and> determine_channel ''a1'' \<noteq> broadcastChannel
   \<and> determine_channel ''broadcast'' = broadcastChannel"
proof -
  have h1: "''a1'' \<noteq> ''b1''" by simp
  have h2: "''a1'' \<noteq> ''broadcast''" by simp
  have h3: "''b1'' \<noteq> ''broadcast''" by simp
  show ?thesis
    using h1 h2 h3 determine_channel_injective [OF h1 h2 h3] by blast
qed

end
